theory Spec2Isabelle
  imports Main "HOL-Library.AList"
begin

section \<open>MeshGuard client: a shallow embedding of the decision protocol\<close>

text \<open>
  The development follows \<^verbatim>\<open>src/client.ts\<close>, \<^verbatim>\<open>src/exceptions.ts\<close>,
  \<^verbatim>\<open>src/types.ts\<close> and \<^verbatim>\<open>src/langchain.ts\<close>.

  \<^item> Values that come out of a response body are untyped at run time (the TypeScript
    casts \<^verbatim>\<open>as string | undefined\<close> check nothing), so they are modelled
    by a type of JavaScript values.
  \<^item> A thrown exception is the \<open>Inl\<close> of a sum and \<open>await\<close> is sequencing. For the
    async methods \<^verbatim>\<open>check\<close>, \<^verbatim>\<open>enforce\<close>, \<^verbatim>\<open>govern\<close> and \<^verbatim>\<open>request\<close> the
    sum is the settlement of the promise they return; where it matters whether a call
    throws or returns a promise that rejects (the admin operations, the wrapped tools and
    the deny handlers), the result is an \<open>outcome\<close>.
  \<^item> The outside world is the transport, a function from the request to its outcome,
    and a log of events (requests issued, callables invoked) that every effectful
    operation extends.
\<close>

subsection \<open>JavaScript values\<close>

text \<open>
  A number is given by its string conversion \<^verbatim>\<open>String(n)\<close>, which determines it up to
  the sign of zero: \<open>Number ''50''\<close>, \<open>Number ''0.5''\<close>, \<open>Number ''18446744073709552000''\<close>.
\<close>

datatype number = Number string

text \<open>
  The values \<^verbatim>\<open>JSON.parse\<close> produces, and \<^verbatim>\<open>undefined\<close>. \<open>JObj\<close> lists the own
  properties of a plain object in insertion order (keys distinct); an array has no own
  properties but its elements.
\<close>

datatype jsvalue =
    JUndefined
  | JNull
  | JBool bool
  | JNum number
  | JStr string
  | JArr "jsvalue list"
  | JObj "(string \<times> jsvalue) list"

text \<open>The decimal numeral of a natural number: the string conversion of a status code and
  of an array index.\<close>

definition digit_char :: "nat \<Rightarrow> char" where
  "digit_char d = char_of (48 + d)"

function String_nat :: "nat \<Rightarrow> string" where
  "String_nat n =
     (if n < 10 then [digit_char n] else String_nat (n div 10) @ [digit_char (n mod 10)])"
  by pat_completeness auto
termination
  by (relation "measure id") auto

declare String_nat.simps [simp del]

fun join_comma :: "string list \<Rightarrow> string" where
  "join_comma [] = []"
| "join_comma [s] = s"
| "join_comma (s # t # ss) = s @ '','' @ join_comma (t # ss)"

subsection \<open>The error taxonomy (\<^verbatim>\<open>exceptions.ts\<close>)\<close>

record PolicyDeniedError_options =
  opt_action :: jsvalue
  opt_policy :: jsvalue
  opt_rule :: jsvalue
  opt_reason :: jsvalue

record PolicyDeniedError =
  message :: string
  err_action :: jsvalue
  err_policy :: jsvalue
  err_rule :: jsvalue
  err_reason :: jsvalue

text \<open>
  What can be thrown. The four classes of \<^verbatim>\<open>exceptions.ts\<close> (the base class
  \<^verbatim>\<open>MeshGuardError\<close> standing for its direct instances), the \<^verbatim>\<open>TypeError\<close> of a
  property read on \<^verbatim>\<open>null\<close>, of a call of a non-function or of a failed conversion to
  a string (carrying the expression that failed), and \<open>TransportError\<close> for whatever the
  platform's \<^verbatim>\<open>fetch\<close> rejects with (network failure, abort on timeout).
\<close>

datatype error =
    MeshGuardError string
  | AuthenticationError string
  | PolicyDenied PolicyDeniedError
  | RateLimitError string
  | TypeError string
  | TransportError string

text \<open>Sequencing of computations that may throw.\<close>

definition and_then :: "error + 'a \<Rightarrow> ('a \<Rightarrow> error + 'b) \<Rightarrow> error + 'b" where
  "and_then r f = (case r of Inl e \<Rightarrow> Inl e | Inr x \<Rightarrow> f x)"

text \<open>
  \<^verbatim>\<open>`${v}`\<close>: the string conversion of a template literal. A plain object converts
  through the \<^verbatim>\<open>toString\<close> it inherits, giving \<^verbatim>\<open>[object Object]\<close>; an own property
  \<^verbatim>\<open>toString\<close> hides the inherited method, is not callable (it came out of
  \<^verbatim>\<open>JSON.parse\<close>), and neither own nor inherited \<^verbatim>\<open>valueOf\<close> gives a primitive, so
  the conversion throws a \<^verbatim>\<open>TypeError\<close>. An array joins the conversions of its elements
  with commas, \<^verbatim>\<open>null\<close> and \<^verbatim>\<open>undefined\<close> elements giving the empty string; the first
  element that throws makes the conversion throw.
\<close>

fun ToString :: "jsvalue \<Rightarrow> error + string"
  and ToString_elements :: "jsvalue list \<Rightarrow> error + string list" where
  "ToString JUndefined = Inr ''undefined''"
| "ToString JNull = Inr ''null''"
| "ToString (JBool b) = Inr (if b then ''true'' else ''false'')"
| "ToString (JNum (Number s)) = Inr s"
| "ToString (JStr s) = Inr s"
| "ToString (JArr xs) =
     (case ToString_elements xs of Inl e \<Rightarrow> Inl e | Inr ss \<Rightarrow> Inr (join_comma ss))"
| "ToString (JObj kvs) =
     (if ''toString'' \<in> fst ` set kvs
      then Inl (TypeError ''Cannot convert object to primitive value'')
      else Inr ''[object Object]'')"
| "ToString_elements [] = Inr []"
| "ToString_elements (x # xs) =
     (case (if x = JUndefined \<or> x = JNull then Inr [] else ToString x) of
        Inl e \<Rightarrow> Inl e
      | Inr s \<Rightarrow> (case ToString_elements xs of Inl e \<Rightarrow> Inl e | Inr ss \<Rightarrow> Inr (s # ss)))"

text \<open>\<^verbatim>\<open>if (v)\<close>: truthiness. Of the numbers, zero and \<^verbatim>\<open>NaN\<close> are falsy.\<close>

fun truthy :: "jsvalue \<Rightarrow> bool" where
  "truthy JUndefined = False"
| "truthy JNull = False"
| "truthy (JBool b) = b"
| "truthy (JNum (Number s)) = (s \<noteq> ''0'' \<and> s \<noteq> ''NaN'')"
| "truthy (JStr s) = (s \<noteq> [])"
| "truthy (JArr xs) = True"
| "truthy (JObj kvs) = True"

text \<open>\<^verbatim>\<open>a ?? b\<close>: the right operand replaces \<^verbatim>\<open>null\<close> and \<^verbatim>\<open>undefined\<close> only.\<close>

definition nullish :: "jsvalue \<Rightarrow> jsvalue \<Rightarrow> jsvalue" where
  "nullish a b = (if a = JUndefined \<or> a = JNull then b else a)"

text \<open>
  The constructor of \<^verbatim>\<open>PolicyDeniedError\<close>. The destructuring default of
  \<^verbatim>\<open>reason\<close> applies to \<^verbatim>\<open>undefined\<close> only; the policy and rule parts of the
  message are guarded by truthiness. The message is composed before anything is
  assigned, so a conversion that throws leaves no error object: the constructor throws
  the \<^verbatim>\<open>TypeError\<close> instead.
\<close>

definition new_PolicyDeniedError :: "PolicyDeniedError_options \<Rightarrow> error + PolicyDeniedError" where
  "new_PolicyDeniedError options =
     (let action = opt_action options;
          policy = opt_policy options;
          rule = opt_rule options;
          reason = (if opt_reason options = JUndefined then JStr ''Access denied by policy''
                    else opt_reason options)
      in and_then (ToString action) (\<lambda>a.
           let message = ''Action '' @ [CHR 0x27] @ a @ [CHR 0x27] @ '' denied''
           in and_then (if truthy policy
                        then and_then (ToString policy) (\<lambda>p.
                               Inr (message @ '' by policy '' @ [CHR 0x27] @ p @ [CHR 0x27]))
                        else Inr message) (\<lambda>message.
              and_then (if truthy rule
                        then and_then (ToString rule) (\<lambda>r.
                               Inr (message @ '' (rule: '' @ r @ '')''))
                        else Inr message) (\<lambda>message.
              and_then (ToString reason) (\<lambda>r.
                Inr \<lparr>message = message @ '': '' @ r, err_action = action, err_policy = policy,
                     err_rule = rule, err_reason = reason\<rparr>)))))"

text \<open>\<^verbatim>\<open>throw new PolicyDeniedError(options)\<close>.\<close>

definition throw_new_PolicyDeniedError :: "PolicyDeniedError_options \<Rightarrow> error + 'a" where
  "throw_new_PolicyDeniedError options =
     (case new_PolicyDeniedError options of Inl err \<Rightarrow> Inl err | Inr e \<Rightarrow> Inl (PolicyDenied e))"

text \<open>
  \<^verbatim>\<open>data.key\<close> for the property names this code reads off parsed bodies
  (\<^verbatim>\<open>action\<close>, \<^verbatim>\<open>policy\<close>, \<^verbatim>\<open>rule\<close>, \<^verbatim>\<open>message\<close>, \<^verbatim>\<open>agents\<close>,
  \<^verbatim>\<open>policies\<close>, \<^verbatim>\<open>id\<close>, \<^verbatim>\<open>name\<close>, \<^verbatim>\<open>trustTier\<close>, \<^verbatim>\<open>tags\<close>,
  \<^verbatim>\<open>orgId\<close>). On \<^verbatim>\<open>null\<close> and \<^verbatim>\<open>undefined\<close> the read throws; an object gives its
  own property or \<^verbatim>\<open>undefined\<close>; the prototypes of strings, numbers, booleans, arrays
  and plain objects define none of these names. The read of \<^verbatim>\<open>entries\<close>, which arrays
  do inherit, is written out in \<open>getAuditLog\<close>.
\<close>

fun get_prop :: "jsvalue \<Rightarrow> string \<Rightarrow> error + jsvalue" where
  "get_prop JUndefined k = Inl (TypeError (''undefined.'' @ k))"
| "get_prop JNull k = Inl (TypeError (''null.'' @ k))"
| "get_prop (JObj kvs) k = (case map_of kvs k of Some v \<Rightarrow> Inr v | None \<Rightarrow> Inr JUndefined)"
| "get_prop _ k = Inr JUndefined"

subsection \<open>Decisions, configuration, requests and responses (\<^verbatim>\<open>types.ts\<close>)\<close>

datatype decision_kind = Allow | Deny

record PolicyDecision =
  allowed :: bool
  action :: string
  decision :: decision_kind
  policy :: jsvalue
  rule :: jsvalue
  reason :: jsvalue
  traceId :: string

text \<open>The fields of a constructed \<^verbatim>\<open>MeshGuardClient\<close>.\<close>

record MeshGuardClient =
  gatewayUrl :: string
  agentToken :: "string option"
  adminToken :: "string option"
  timeout :: number
  client_traceId :: string

text \<open>
  A plain object used as a header record is the list of its own properties in insertion
  order; assigning a property is \<^const>\<open>AList.update\<close> (an old key keeps its place, a new
  one goes last). The TypeScript type is \<^verbatim>\<open>Record<string, string>\<close>; at run time a value
  is whatever was assigned.
\<close>

type_synonym header_record = "(string \<times> jsvalue) list"

text \<open>
  \<^verbatim>\<open>init.headers\<close>, in the three forms of \<^verbatim>\<open>HeadersInit\<close>: a \<^verbatim>\<open>Headers\<close> instance,
  given by what its \<^verbatim>\<open>entries()\<close> yields (the names in lower case, sorted, one entry
  for each name); an array of name-value arrays; a plain record.
\<close>

datatype headers_init =
    HeadersInstance "(string \<times> string) list"
  | HeadersArray "string list list"
  | HeadersRecord header_record

text \<open>A request body: a text, or the text \<^verbatim>\<open>JSON.stringify\<close> gives for a value.\<close>

datatype body_init = BodyText string | JSON_stringify jsvalue

record RequestInit =
  init_method :: "string option"
  init_headers :: "headers_init option"
  init_body :: "body_init option"

text \<open>
  A \<^verbatim>\<open>Response\<close>: its status (an unsigned short), the text of its body, and what the
  platform's \<^verbatim>\<open>JSON.parse\<close> makes of that text (\<open>None\<close> when it throws a syntax error,
  as it does on the empty text).
\<close>

record Response =
  status :: nat
  body_text :: string
  body_json :: "jsvalue option"

text \<open>
  The event log. \<open>Fetch\<close> is one call of the platform's \<^verbatim>\<open>fetch\<close>; \<open>FnCall\<close> one
  invocation of the callable given to \<^verbatim>\<open>govern\<close>; \<open>ToolCall\<close> one invocation of a
  wrapped tool's method with its arguments; \<open>DenyCall\<close> one invocation of a deny
  handler.
\<close>

datatype tool_prop = Invoke | Call

datatype event =
    Fetch string RequestInit
  | FnCall
  | ToolCall tool_prop "jsvalue list"
  | DenyCall PolicyDeniedError "jsvalue list"

type_synonym trace = "event list"

type_synonym transport = "string \<Rightarrow> RequestInit \<Rightarrow> error + Response"

text \<open>
  What calling a function gives: a synchronous throw, a promise that rejects, or a
  value (returned directly or as a promise that resolves to it).
\<close>

datatype 'a outcome = Throws error | Rejects error | Returns 'a

text \<open>\<^verbatim>\<open>await\<close> of a call, or \<^verbatim>\<open>return\<close> of it from an async function outside
  any \<^verbatim>\<open>try\<close>: both failures become the rejection.\<close>

fun settle :: "'a outcome \<Rightarrow> error + 'a" where
  "settle (Throws e) = Inl e"
| "settle (Rejects e) = Inl e"
| "settle (Returns v) = Inr v"

text \<open>
  A call of an \<^verbatim>\<open>async\<close> method, given what its body does: the call never throws;
  what the body throws, from its first statement on, is the rejection of the promise
  the call returns.
\<close>

definition async :: "(error + 'a) \<times> trace \<Rightarrow> 'a outcome \<times> trace" where
  "async r = (case r of (Inl e, tr) \<Rightarrow> (Rejects e, tr) | (Inr v, tr) \<Rightarrow> (Returns v, tr))"

subsection \<open>Construction of the client\<close>

text \<open>
  The constructor reads each option, then the process environment, then the default.
  \<open>env\<close> is \<^verbatim>\<open>process.env\<close> and \<open>randomUUID\<close> what \<^verbatim>\<open>crypto.randomUUID()\<close>
  returns.
\<close>

record MeshGuardOptions =
  opt_gatewayUrl :: "string option"
  opt_agentToken :: "string option"
  opt_adminToken :: "string option"
  opt_timeout :: "number option"
  opt_traceId :: "string option"

definition strip_trailing_slashes :: "string \<Rightarrow> string" where
  "strip_trailing_slashes s = rev (dropWhile (\<lambda>ch. ch = CHR ''/'') (rev s))"

definition new_MeshGuardClient ::
  "(string \<Rightarrow> string option) \<Rightarrow> string \<Rightarrow> MeshGuardOptions \<Rightarrow> MeshGuardClient" where
  "new_MeshGuardClient env randomUUID options =
     \<lparr>gatewayUrl =
        strip_trailing_slashes
          (case opt_gatewayUrl options of
             Some u \<Rightarrow> u
           | None \<Rightarrow> (case env ''MESHGUARD_GATEWAY_URL'' of
                        Some u \<Rightarrow> u
                      | None \<Rightarrow> ''http://localhost:3100'')),
      agentToken =
        (case opt_agentToken options of Some t \<Rightarrow> Some t | None \<Rightarrow> env ''MESHGUARD_AGENT_TOKEN''),
      adminToken =
        (case opt_adminToken options of Some t \<Rightarrow> Some t | None \<Rightarrow> env ''MESHGUARD_ADMIN_TOKEN''),
      timeout = (case opt_timeout options of Some t \<Rightarrow> t | None \<Rightarrow> Number ''30000''),
      client_traceId = (case opt_traceId options of Some t \<Rightarrow> t | None \<Rightarrow> randomUUID)\<rparr>"

subsection \<open>Internal helpers of the client\<close>

definition headers :: "MeshGuardClient \<Rightarrow> bool \<Rightarrow> header_record" where
  "headers c includeAuth =
     (let h = [(''X-MeshGuard-Trace-ID'', JStr (client_traceId c))]
      in case agentToken c of
           None \<Rightarrow> h
         | Some t \<Rightarrow>
             if includeAuth \<and> t \<noteq> []
             then AList.update ''Authorization'' (JStr (''Bearer '' @ t)) h
             else h)"

definition adminHeaders :: "MeshGuardClient \<Rightarrow> error + header_record" where
  "adminHeaders c =
     (case adminToken c of
        None \<Rightarrow> Inl (AuthenticationError ''Admin token required for this operation'')
      | Some t \<Rightarrow>
          if t = [] then Inl (AuthenticationError ''Admin token required for this operation'')
          else Inr [(''X-Admin-Token'', JStr t),
                    (''X-MeshGuard-Trace-ID'', JStr (client_traceId c))])"

definition safeJson :: "Response \<Rightarrow> jsvalue" where
  "safeJson response =
     (let text = body_text response
      in if text = [] then JObj []
         else (case body_json response of Some v \<Rightarrow> v | None \<Rightarrow> JObj []))"

definition handleResponse :: "Response \<Rightarrow> error + jsvalue" where
  "handleResponse response =
     (if status response = 401 then Inl (AuthenticationError ''Invalid or expired token'')
      else if status response = 403 then
        (let data = safeJson response
         in and_then (get_prop data ''action'') (\<lambda>a.
            and_then (get_prop data ''policy'') (\<lambda>p.
            and_then (get_prop data ''rule'') (\<lambda>r.
            and_then (get_prop data ''message'') (\<lambda>m.
              throw_new_PolicyDeniedError
                \<lparr>opt_action = nullish a (JStr ''unknown''), opt_policy = p, opt_rule = r,
                 opt_reason = nullish m (JStr ''Access denied by policy'')\<rparr>)))))
      else if status response = 429 then Inl (RateLimitError ''Rate limit exceeded'')
      else if status response \<ge> 400 then
        Inl (MeshGuardError
               (''Request failed: '' @ String_nat (status response) @ '' '' @ body_text response))
      else Inr (safeJson response))"

text \<open>
  The client's \<^verbatim>\<open>fetch\<close>: one call of the platform's, logged. The abort timer has
  no effect of its own here: a timeout is one of the transport's failures.
\<close>

definition fetch :: "transport \<Rightarrow> string \<Rightarrow> RequestInit \<Rightarrow> trace \<Rightarrow> (error + Response) \<times> trace" where
  "fetch net url init tr = (net url init, tr @ [Fetch url init])"

subsection \<open>Core governance\<close>

text \<open>
  The \<^verbatim>\<open>try\<close> block of \<^verbatim>\<open>check\<close>, from the outcome of the fetch on. The
  properties of the decision literal are read in the order written.
\<close>

definition check_try :: "MeshGuardClient \<Rightarrow> string \<Rightarrow> error + Response \<Rightarrow> error + PolicyDecision" where
  "check_try c act fetched =
     and_then fetched (\<lambda>response.
       if status response = 403 then
         (let data = safeJson response
          in and_then (get_prop data ''policy'') (\<lambda>p.
             and_then (get_prop data ''rule'') (\<lambda>r.
             and_then (get_prop data ''message'') (\<lambda>m.
               Inr \<lparr>allowed = False, action = act, decision = Deny, policy = p, rule = r,
                    reason = m, traceId = client_traceId c\<rparr>))))
       else
         and_then (handleResponse response) (\<lambda>data.
         and_then (get_prop data ''policy'') (\<lambda>p.
           Inr \<lparr>allowed = True, action = act, decision = Allow, policy = p,
                rule = JUndefined, reason = JUndefined, traceId = client_traceId c\<rparr>)))"

text \<open>The \<^verbatim>\<open>catch\<close> block of \<^verbatim>\<open>check\<close>.\<close>

definition check_catch :: "MeshGuardClient \<Rightarrow> string \<Rightarrow> error \<Rightarrow> error + PolicyDecision" where
  "check_catch c act err =
     (case err of
        PolicyDenied e \<Rightarrow>
          Inr \<lparr>allowed = False, action = act, decision = Deny, policy = err_policy e,
               rule = err_rule e, reason = err_reason e, traceId = client_traceId c\<rparr>
      | _ \<Rightarrow> Inl err)"

definition check ::
  "transport \<Rightarrow> MeshGuardClient \<Rightarrow> string \<Rightarrow> string option \<Rightarrow> trace
    \<Rightarrow> (error + PolicyDecision) \<times> trace" where
  "check net c act resource tr =
     (let h = headers c True;
          h = AList.update ''X-MeshGuard-Action'' (JStr act) h;
          h = (case resource of
                 None \<Rightarrow> h
               | Some r \<Rightarrow>
                   if r \<noteq> [] then AList.update ''X-MeshGuard-Resource'' (JStr r) h else h);
          (fetched, tr') =
             fetch net (gatewayUrl c @ ''/proxy/check'')
               \<lparr>init_method = Some ''GET'', init_headers = Some (HeadersRecord h),
                init_body = None\<rparr> tr
      in (case check_try c act fetched of
            Inl err \<Rightarrow> check_catch c act err
          | Inr d \<Rightarrow> Inr d, tr'))"

definition enforce ::
  "transport \<Rightarrow> MeshGuardClient \<Rightarrow> string \<Rightarrow> string option \<Rightarrow> trace
    \<Rightarrow> (error + PolicyDecision) \<times> trace" where
  "enforce net c act resource tr =
     (case check net c act resource tr of
        (Inl err, tr') \<Rightarrow> (Inl err, tr')
      | (Inr d, tr') \<Rightarrow>
          if \<not> allowed d then
            (throw_new_PolicyDeniedError
               \<lparr>opt_action = JStr act, opt_policy = policy d, opt_rule = rule d,
                opt_reason = reason d\<rparr>, tr')
          else (Inr d, tr'))"

text \<open>\<open>fn\<close> is what calling the callable gives; the call itself is logged.\<close>

definition govern ::
  "transport \<Rightarrow> MeshGuardClient \<Rightarrow> string \<Rightarrow> 'a outcome \<Rightarrow> string option \<Rightarrow> trace
    \<Rightarrow> (error + 'a) \<times> trace" where
  "govern net c act fn resource tr =
     (case enforce net c act resource tr of
        (Inl err, tr') \<Rightarrow> (Inl err, tr')
      | (Inr d, tr') \<Rightarrow> (settle fn, tr' @ [FnCall]))"

subsection \<open>Proxy requests\<close>

text \<open>
  \<^verbatim>\<open>Object.assign(h, extra)\<close> writes the own enumerable properties of \<open>extra\<close> into
  \<open>h\<close>, in order. Of a plain record these are its properties; of an array they are its
  indices, each with the element it holds (\<^verbatim>\<open>length\<close> is not enumerable).
  \<^verbatim>\<open>Object.fromEntries\<close> builds a record from name-value pairs, a later pair
  replacing an earlier one of the same name.
\<close>

definition Object_assign :: "header_record \<Rightarrow> (string \<times> jsvalue) list \<Rightarrow> header_record" where
  "Object_assign h extra = fold (\<lambda>(k, v) acc. AList.update k v acc) extra h"

definition Object_fromEntries :: "(string \<times> string) list \<Rightarrow> header_record" where
  "Object_fromEntries es = Object_assign [] (map (\<lambda>(k, v). (k, JStr v)) es)"

definition array_properties :: "string list list \<Rightarrow> (string \<times> jsvalue) list" where
  "array_properties ps =
     zip (map String_nat [0 ..< length ps]) (map (\<lambda>p. JArr (map JStr p)) ps)"

definition empty_init :: RequestInit where
  "empty_init = \<lparr>init_method = None, init_headers = None, init_body = None\<rparr>"

text \<open>
  \<^verbatim>\<open>request\<close>. Whatever \<^verbatim>\<open>init.headers\<close> is, if it is not a \<^verbatim>\<open>Headers\<close> instance
  it is cast to a record and assigned: so is an array of pairs.
\<close>

definition request ::
  "transport \<Rightarrow> MeshGuardClient \<Rightarrow> string \<Rightarrow> string \<Rightarrow> string \<Rightarrow> RequestInit option \<Rightarrow> trace
    \<Rightarrow> (error + Response) \<times> trace" where
  "request net c method path act init_arg tr =
     (let init = (case init_arg of None \<Rightarrow> empty_init | Some i \<Rightarrow> i);
          h = AList.update ''X-MeshGuard-Action'' (JStr act) (headers c True);
          h = (case init_headers init of
                 None \<Rightarrow> h
               | Some hs \<Rightarrow>
                   (let extra = (case hs of
                                   HeadersInstance es \<Rightarrow> Object_fromEntries es
                                 | HeadersArray ps \<Rightarrow> array_properties ps
                                 | HeadersRecord r \<Rightarrow> r)
                    in Object_assign h extra));
          (fetched, tr') =
             fetch net (gatewayUrl c @ ''/proxy/'' @ dropWhile (\<lambda>ch. ch = CHR ''/'') path)
               (init\<lparr>init_method := Some method, init_headers := Some (HeadersRecord h)\<rparr>) tr
      in (and_then fetched (\<lambda>response.
          and_then (handleResponse response) (\<lambda>data. Inr response)), tr'))"

definition get :: "transport \<Rightarrow> MeshGuardClient \<Rightarrow> string \<Rightarrow> string \<Rightarrow> RequestInit option \<Rightarrow> trace
    \<Rightarrow> (error + Response) \<times> trace" where
  "get net c path act init = request net c ''GET'' path act init"

definition post :: "transport \<Rightarrow> MeshGuardClient \<Rightarrow> string \<Rightarrow> string \<Rightarrow> RequestInit option \<Rightarrow> trace
    \<Rightarrow> (error + Response) \<times> trace" where
  "post net c path act init = request net c ''POST'' path act init"

definition put :: "transport \<Rightarrow> MeshGuardClient \<Rightarrow> string \<Rightarrow> string \<Rightarrow> RequestInit option \<Rightarrow> trace
    \<Rightarrow> (error + Response) \<times> trace" where
  "put net c path act init = request net c ''PUT'' path act init"

definition delete :: "transport \<Rightarrow> MeshGuardClient \<Rightarrow> string \<Rightarrow> string \<Rightarrow> RequestInit option \<Rightarrow> trace
    \<Rightarrow> (error + Response) \<times> trace" where
  "delete net c path act init = request net c ''DELETE'' path act init"

subsection \<open>Admin operations\<close>

text \<open>
  Each admin operation is an \<^verbatim>\<open>async\<close> method. \<^verbatim>\<open>adminHeaders()\<close> is evaluated
  while the arguments of \<^verbatim>\<open>this.fetch\<close> are built, before the call.

  \<^verbatim>\<open>array.map(f)\<close> with a callback that may throw; on anything but an array,
  \<^verbatim>\<open>.map\<close> is not a function.
\<close>

fun map_throwing :: "('a \<Rightarrow> error + 'b) \<Rightarrow> 'a list \<Rightarrow> error + 'b list" where
  "map_throwing f [] = Inr []"
| "map_throwing f (x # xs) =
     and_then (f x) (\<lambda>y. and_then (map_throwing f xs) (\<lambda>ys. Inr (y # ys)))"

definition agent_of :: "jsvalue \<Rightarrow> error + jsvalue" where
  "agent_of a =
     and_then (get_prop a ''id'') (\<lambda>i.
     and_then (get_prop a ''name'') (\<lambda>n.
     and_then (get_prop a ''trustTier'') (\<lambda>t.
     and_then (get_prop a ''tags'') (\<lambda>g.
     and_then (get_prop a ''orgId'') (\<lambda>orgId.
       Inr (JObj [(''id'', i), (''name'', n), (''trustTier'', t),
                  (''tags'', nullish g (JArr [])), (''orgId'', orgId)]))))))"

definition listAgents :: "transport \<Rightarrow> MeshGuardClient \<Rightarrow> trace \<Rightarrow> jsvalue outcome \<times> trace" where
  "listAgents net c tr =
     async
       (case adminHeaders c of
          Inl err \<Rightarrow> (Inl err, tr)
        | Inr h \<Rightarrow>
            (let (fetched, tr') =
                   fetch net (gatewayUrl c @ ''/admin/agents'')
                     \<lparr>init_method = None, init_headers = Some (HeadersRecord h),
                      init_body = None\<rparr> tr
             in (and_then fetched (\<lambda>response.
                 and_then (handleResponse response) (\<lambda>data.
                 and_then (get_prop data ''agents'') (\<lambda>a.
                   case nullish a (JArr []) of
                     JArr agents \<Rightarrow> and_then (map_throwing agent_of agents) (\<lambda>r. Inr (JArr r))
                   | _ \<Rightarrow> Inl (TypeError ''agents.map'')))), tr')))"

record CreateAgentOptions =
  agent_name :: string
  agent_trustTier :: "string option"
  agent_tags :: "string list option"

definition createAgent ::
  "transport \<Rightarrow> MeshGuardClient \<Rightarrow> CreateAgentOptions \<Rightarrow> trace \<Rightarrow> jsvalue outcome \<times> trace" where
  "createAgent net c options tr =
     async
       (case adminHeaders c of
          Inl err \<Rightarrow> (Inl err, tr)
        | Inr h \<Rightarrow>
            (let (fetched, tr') =
                   fetch net (gatewayUrl c @ ''/admin/agents'')
                     \<lparr>init_method = Some ''POST'',
                      init_headers =
                        Some (HeadersRecord
                                (AList.update ''Content-Type'' (JStr ''application/json'') h)),
                      init_body = Some (JSON_stringify (JObj
                        [(''name'', JStr (agent_name options)),
                         (''trustTier'',
                            JStr (case agent_trustTier options of
                                    None \<Rightarrow> ''verified'' | Some t \<Rightarrow> t)),
                         (''tags'',
                            JArr (map JStr (case agent_tags options of
                                              None \<Rightarrow> [] | Some g \<Rightarrow> g)))]))\<rparr>
                     tr
             in (and_then fetched handleResponse, tr')))"

definition revokeAgent :: "transport \<Rightarrow> MeshGuardClient \<Rightarrow> string \<Rightarrow> trace \<Rightarrow> unit outcome \<times> trace" where
  "revokeAgent net c agentId tr =
     async
       (case adminHeaders c of
          Inl err \<Rightarrow> (Inl err, tr)
        | Inr h \<Rightarrow>
            (let (fetched, tr') =
                   fetch net (gatewayUrl c @ ''/admin/agents/'' @ agentId)
                     \<lparr>init_method = Some ''DELETE'', init_headers = Some (HeadersRecord h),
                      init_body = None\<rparr> tr
             in (and_then fetched (\<lambda>response.
                 and_then (handleResponse response) (\<lambda>data. Inr ())), tr')))"

definition listPolicies :: "transport \<Rightarrow> MeshGuardClient \<Rightarrow> trace \<Rightarrow> jsvalue outcome \<times> trace" where
  "listPolicies net c tr =
     async
       (case adminHeaders c of
          Inl err \<Rightarrow> (Inl err, tr)
        | Inr h \<Rightarrow>
            (let (fetched, tr') =
                   fetch net (gatewayUrl c @ ''/admin/policies'')
                     \<lparr>init_method = None, init_headers = Some (HeadersRecord h),
                      init_body = None\<rparr> tr
             in (and_then fetched (\<lambda>response.
                 and_then (handleResponse response) (\<lambda>data.
                 and_then (get_prop data ''policies'') (\<lambda>p. Inr (nullish p (JArr []))))), tr')))"

text \<open>
  \<^verbatim>\<open>URLSearchParams\<close>: its string is the form-urlencoded serialisation of the
  pairs (a space is \<open>+\<close>; letters, digits and \<open>* - . _\<close> stand for themselves; every other
  byte is \<open>%\<close> and two upper-case hexadecimal digits).
\<close>

definition hex_char :: "nat \<Rightarrow> char" where
  "hex_char d = (if d < 10 then char_of (48 + d) else char_of (55 + d))"

definition urlencode_char :: "char \<Rightarrow> string" where
  "urlencode_char ch =
     (let b = (of_char ch :: nat)
      in if b = 32 then ''+''
         else if b = 42 \<or> b = 45 \<or> b = 46 \<or> b = 95 \<or> (48 \<le> b \<and> b \<le> 57)
                 \<or> (65 \<le> b \<and> b \<le> 90) \<or> (97 \<le> b \<and> b \<le> 122) then [ch]
         else [CHR ''%'', hex_char (b div 16), hex_char (b mod 16)])"

definition urlencode :: "string \<Rightarrow> string" where
  "urlencode s = concat (map urlencode_char s)"

fun URLSearchParams_toString :: "(string \<times> string) list \<Rightarrow> string" where
  "URLSearchParams_toString [] = []"
| "URLSearchParams_toString [(k, v)] = urlencode k @ ''='' @ urlencode v"
| "URLSearchParams_toString ((k, v) # p # ps) =
     urlencode k @ ''='' @ urlencode v @ ''&'' @ URLSearchParams_toString (p # ps)"

record AuditLogOptions =
  audit_limit :: "number option"
  audit_decision :: "string option"

text \<open>
  What \<^verbatim>\<open>getAuditLog\<close> resolves to: \<^verbatim>\<open>data.entries ?? []\<close>. When the body is an
  array, \<^verbatim>\<open>data.entries\<close> is the method arrays inherit, which is returned as it is.
\<close>

datatype audit_entries = Entries jsvalue | Array_prototype_entries

definition getAuditLog ::
  "transport \<Rightarrow> MeshGuardClient \<Rightarrow> AuditLogOptions \<Rightarrow> trace \<Rightarrow> audit_entries outcome \<times> trace" where
  "getAuditLog net c options tr =
     async
       (let params = [(''limit'',
                       (case audit_limit options of
                          None \<Rightarrow> ''50'' | Some (Number s) \<Rightarrow> s))];
            params = (case audit_decision options of
                        None \<Rightarrow> params
                      | Some d \<Rightarrow> if d \<noteq> [] then AList.update ''decision'' d params else params)
        in case adminHeaders c of
             Inl err \<Rightarrow> (Inl err, tr)
           | Inr h \<Rightarrow>
               (let (fetched, tr') =
                      fetch net
                        (gatewayUrl c @ ''/admin/audit?'' @ URLSearchParams_toString params)
                        \<lparr>init_method = None, init_headers = Some (HeadersRecord h),
                         init_body = None\<rparr> tr
                in (and_then fetched (\<lambda>response.
                    and_then (handleResponse response) (\<lambda>data.
                      case data of
                        JArr xs \<Rightarrow> Inr Array_prototype_entries
                      | _ \<Rightarrow> and_then (get_prop data ''entries'') (\<lambda>e.
                               Inr (Entries (nullish e (JArr [])))))), tr')))"

subsection \<open>Tool governance (\<^verbatim>\<open>langchain.ts\<close>)\<close>

record LangChainTool =
  name :: string
  description :: string
  invoke :: "jsvalue list \<Rightarrow> jsvalue outcome"
  call :: "(jsvalue list \<Rightarrow> jsvalue outcome) option"

type_synonym DenyHandler = "PolicyDeniedError \<Rightarrow> jsvalue list \<Rightarrow> jsvalue outcome"

text \<open>\<^verbatim>\<open>Reflect.get(target, prop, receiver)\<close> for the two intercepted properties.\<close>

fun Reflect_get :: "LangChainTool \<Rightarrow> tool_prop \<Rightarrow> (jsvalue list \<Rightarrow> jsvalue outcome) option" where
  "Reflect_get target Invoke = Some (invoke target)"
| "Reflect_get target Call = call target"

text \<open>
  The function the proxy of \<^verbatim>\<open>governedTool\<close> returns for \<^verbatim>\<open>invoke\<close> and
  \<^verbatim>\<open>call\<close>, applied to \<open>args\<close>. The wrapped method is called inside the
  \<^verbatim>\<open>try\<close> and its promise returned without \<^verbatim>\<open>await\<close>: a synchronous throw
  reaches the \<^verbatim>\<open>catch\<close>, a rejection does not. Applying a missing method is a
  \<^verbatim>\<open>TypeError\<close>.
\<close>

definition governedTool ::
  "transport \<Rightarrow> string \<Rightarrow> MeshGuardClient \<Rightarrow> LangChainTool \<Rightarrow> DenyHandler option \<Rightarrow> tool_prop
    \<Rightarrow> jsvalue list \<Rightarrow> trace \<Rightarrow> (error + jsvalue) \<times> trace" where
  "governedTool net act client tool onDeny prop args tr =
     (let (tried, tr1) =
            (case enforce net client act None tr of
               (Inl err, tr') \<Rightarrow> (Throws err, tr')
             | (Inr d, tr') \<Rightarrow>
                 (case Reflect_get tool prop of
                    None \<Rightarrow> (Throws (TypeError ''fn.apply''), tr')
                  | Some fn \<Rightarrow> (fn args, tr' @ [ToolCall prop args])))
      in case tried of
           Throws err \<Rightarrow>
             (case err of
                PolicyDenied e \<Rightarrow>
                  (case onDeny of
                     Some handler \<Rightarrow> (settle (handler e args), tr1 @ [DenyCall e args])
                   | None \<Rightarrow> (Inl err, tr1))
              | _ \<Rightarrow> (Inl err, tr1))
         | Rejects err \<Rightarrow> (Inl err, tr1)
         | Returns v \<Rightarrow> (Inr v, tr1))"

record GovernedTool =
  gt_name :: string
  gt_description :: string
  gt_action :: string
  gt_tool :: LangChainTool
  gt_client :: MeshGuardClient
  gt_onDeny :: "DenyHandler option"

record GovernedTool_options =
  o_tool :: LangChainTool
  o_action :: string
  o_client :: MeshGuardClient
  o_onDeny :: "DenyHandler option"

definition new_GovernedTool :: "GovernedTool_options \<Rightarrow> GovernedTool" where
  "new_GovernedTool options =
     \<lparr>gt_name = name (o_tool options), gt_description = description (o_tool options),
      gt_action = o_action options, gt_tool = o_tool options, gt_client = o_client options,
      gt_onDeny = o_onDeny options\<rparr>"

text \<open>\<^verbatim>\<open>GovernedTool.invoke(input, config)\<close>; an omitted \<open>config\<close> is \<open>JUndefined\<close>.\<close>

definition GovernedTool_invoke ::
  "transport \<Rightarrow> GovernedTool \<Rightarrow> jsvalue \<Rightarrow> jsvalue \<Rightarrow> trace \<Rightarrow> (error + jsvalue) \<times> trace" where
  "GovernedTool_invoke net this input config tr =
     (let (tried, tr1) =
            (case enforce net (gt_client this) (gt_action this) None tr of
               (Inl err, tr') \<Rightarrow> (Throws err, tr')
             | (Inr d, tr') \<Rightarrow>
                 (invoke (gt_tool this) [input, config], tr' @ [ToolCall Invoke [input, config]]))
      in case tried of
           Throws err \<Rightarrow>
             (case err of
                PolicyDenied e \<Rightarrow>
                  (case gt_onDeny this of
                     Some handler \<Rightarrow>
                       (settle (handler e [input, config]), tr1 @ [DenyCall e [input, config]])
                   | None \<Rightarrow> (Inl err, tr1))
              | _ \<Rightarrow> (Inl err, tr1))
         | Rejects err \<Rightarrow> (Inl err, tr1)
         | Returns v \<Rightarrow> (Inr v, tr1))"

definition GovernedTool_call ::
  "transport \<Rightarrow> GovernedTool \<Rightarrow> jsvalue \<Rightarrow> jsvalue \<Rightarrow> trace \<Rightarrow> (error + jsvalue) \<times> trace" where
  "GovernedTool_call net this input config tr = GovernedTool_invoke net this input config tr"

subsection \<open>Fixtures\<close>

text \<open>
  The helpers of \<^verbatim>\<open>tests/client.test.ts\<close>: a transport that answers every request with one
  response (\<^verbatim>\<open>mockResolvedValue\<close>) or fails every request (\<^verbatim>\<open>mockRejectedValue\<close>),
  and a client with explicit options.
\<close>

definition mockFetch :: "Response \<Rightarrow> transport" where
  "mockFetch response = (\<lambda>url init. Inr response)"

definition mockRejected :: "error \<Rightarrow> transport" where
  "mockRejected err = (\<lambda>url init. Inl err)"

definition response_of :: "nat \<Rightarrow> string \<Rightarrow> jsvalue option \<Rightarrow> Response" where
  "response_of s t j = \<lparr>status = s, body_text = t, body_json = j\<rparr>"

definition client0 :: MeshGuardClient where
  "client0 = \<lparr>gatewayUrl = ''http://localhost:3100'', agentToken = Some ''tok'',
     adminToken = None, timeout = Number ''30000'', client_traceId = ''trace-1''\<rparr>"

definition no_options :: MeshGuardOptions where
  "no_options = \<lparr>opt_gatewayUrl = None, opt_agentToken = None, opt_adminToken = None,
     opt_timeout = None, opt_traceId = None\<rparr>"

definition no_env :: "string \<Rightarrow> string option" where
  "no_env = (\<lambda>v. None)"

text \<open>The 403 and 200 responses of the tests of \<^verbatim>\<open>enforce\<close>, a 200 response that
  echoes a trace id, and a 403 response whose policy is an object with a property named
  \<^verbatim>\<open>toString\<close>.\<close>

definition denied0 :: Response where
  \<open>denied0 = response_of 403 ''{"policy":"strict","message":"Nope"}''
     (Some (JObj [(''policy'', JStr ''strict''), (''message'', JStr ''Nope'')]))\<close>

definition allowed0 :: Response where
  \<open>allowed0 = response_of 200 ''{"policy":"default"}''
     (Some (JObj [(''policy'', JStr ''default'')]))\<close>

definition echoed0 :: Response where
  \<open>echoed0 = response_of 200 ''{"traceId":"other"}''
     (Some (JObj [(''traceId'', JStr ''other'')]))\<close>

definition denied_by_object0 :: Response where
  \<open>denied_by_object0 = response_of 403 ''{"policy":{"toString":1}}''
     (Some (JObj [(''policy'', JObj [(''toString'', JNum (Number ''1''))])]))\<close>

text \<open>A tool, a deny handler that reports the error's message and the arguments it was
  given, and the options of the README's \<^verbatim>\<open>post\<close> example.\<close>

definition search_tool :: LangChainTool where
  "search_tool = \<lparr>name = ''search'', description = ''web search'',
     invoke = (\<lambda>args. Returns (JStr ''results'')), call = None\<rparr>"

definition report_denial :: DenyHandler where
  "report_denial e args = Returns (JArr (JStr (message e) # args))"





subsection \<open>Observations and the documented wording\<close>

text \<open>An optional string argument as the value the constructor receives.\<close>

definition optional :: "string option \<Rightarrow> jsvalue" where
  "optional v = (case v of None \<Rightarrow> JUndefined | Some s \<Rightarrow> JStr s)"

text \<open>A value of the declared type \<^verbatim>\<open>string | undefined\<close>.\<close>

fun string_or_undefined :: "jsvalue \<Rightarrow> bool" where
  "string_or_undefined JUndefined = True"
| "string_or_undefined (JStr s) = True"
| "string_or_undefined _ = False"

text \<open>
  The message of a \<^verbatim>\<open>PolicyDeniedError\<close> in the words of the specification: the policy
  part exactly when a policy is present, the rule part exactly when a rule is present.
\<close>

definition spec_message :: "string \<Rightarrow> string option \<Rightarrow> string option \<Rightarrow> string option \<Rightarrow> string" where
  "spec_message act pol rul rsn =
     ''Action '' @ [CHR 0x27] @ act @ [CHR 0x27] @ '' denied''
     @ (case pol of None \<Rightarrow> [] | Some p \<Rightarrow> '' by policy '' @ [CHR 0x27] @ p @ [CHR 0x27])
     @ (case rul of None \<Rightarrow> [] | Some r \<Rightarrow> '' (rule: '' @ r @ '')'')
     @ '': '' @ (case rsn of None \<Rightarrow> ''Access denied by policy'' | Some r \<Rightarrow> r)"

text \<open>The same composition with the parts guarded as the constructor guards them: a
  policy or rule that is present and not the empty string.\<close>

definition composed_message :: "string \<Rightarrow> string option \<Rightarrow> string option \<Rightarrow> string option \<Rightarrow> string" where
  "composed_message act pol rul rsn =
     ''Action '' @ [CHR 0x27] @ act @ [CHR 0x27] @ '' denied''
     @ (case pol of None \<Rightarrow> []
        | Some p \<Rightarrow> if p = [] then [] else '' by policy '' @ [CHR 0x27] @ p @ [CHR 0x27])
     @ (case rul of None \<Rightarrow> [] | Some r \<Rightarrow> if r = [] then [] else '' (rule: '' @ r @ '')'')
     @ '': '' @ (case rsn of None \<Rightarrow> ''Access denied by policy'' | Some r \<Rightarrow> r)"




section \<open>Properties\<close>

subsection \<open>What \<^verbatim>\<open>check\<close> and \<^verbatim>\<open>enforce\<close> compute\<close>

lemma check_fst_snd:
  "\<exists>url init. check net c act resource tr =
     (case check_try c act (net url init) of Inl err \<Rightarrow> check_catch c act err | Inr d \<Rightarrow> Inr d,
      tr @ [Fetch url init])"
  by (simp add: check_def fetch_def Let_def)

lemma check_mock:
  "\<exists>url init. check (mockFetch response) c act resource tr =
     (case check_try c act (Inr response) of Inl err \<Rightarrow> check_catch c act err | Inr d \<Rightarrow> Inr d,
      tr @ [Fetch url init])"
  using check_fst_snd [of "mockFetch response" c act resource tr] by (simp add: mockFetch_def)

lemma check_catch_decision:
  "check_catch c act err = Inr d \<Longrightarrow>
     \<not> allowed d \<and> decision d = Deny \<and> action d = act \<and> traceId d = client_traceId c"
  by (cases err) (auto simp: check_catch_def)

lemma check_try_decision:
  "check_try c act fetched = Inr d \<Longrightarrow>
     (allowed d \<longleftrightarrow> decision d = Allow) \<and> action d = act \<and> traceId d = client_traceId c"
  by (auto simp: check_try_def and_then_def Let_def split: sum.splits if_splits)

lemma check_decision:
  assumes "fst (check net c act resource tr) = Inr d"
  shows "(allowed d \<longleftrightarrow> decision d = Allow) \<and> action d = act \<and> traceId d = client_traceId c"
proof -
  obtain url init where
    "check net c act resource tr =
      (case check_try c act (net url init) of Inl err \<Rightarrow> check_catch c act err | Inr d \<Rightarrow> Inr d,
       tr @ [Fetch url init])"
    using check_fst_snd by blast
  with assms show ?thesis
    by (auto split: sum.splits dest: check_catch_decision check_try_decision)
qed

lemma check_catch_not_denied: "check_catch c act err \<noteq> Inl (PolicyDenied e)"
  by (cases err) (auto simp: check_catch_def)

lemma check_never_denied: "fst (check net c act resource tr) \<noteq> Inl (PolicyDenied e)"
proof -
  obtain url init where
    "check net c act resource tr =
      (case check_try c act (net url init) of Inl err \<Rightarrow> check_catch c act err | Inr d \<Rightarrow> Inr d,
       tr @ [Fetch url init])"
    using check_fst_snd by blast
  then show ?thesis
    by (auto split: sum.splits simp: check_catch_not_denied)
qed

lemma enforce_fst:
  "fst (enforce net c act resource tr) =
     (case fst (check net c act resource tr) of
        Inl err \<Rightarrow> Inl err
      | Inr d \<Rightarrow>
          if \<not> allowed d then
            throw_new_PolicyDeniedError
              \<lparr>opt_action = JStr act, opt_policy = policy d, opt_rule = rule d,
               opt_reason = reason d\<rparr>
          else Inr d)"
  by (simp add: enforce_def split: prod.splits sum.splits)

lemma enforce_snd: "snd (enforce net c act resource tr) = snd (check net c act resource tr)"
  by (simp add: enforce_def split: prod.splits sum.splits)

lemma throw_new_PolicyDeniedError_throws: "throw_new_PolicyDeniedError options \<noteq> Inr x"
  by (simp add: throw_new_PolicyDeniedError_def split: sum.splits)

subsection \<open>Evaluation and further facts about the helpers\<close>

lemmas eval_defs = check_def fetch_def mockFetch_def response_of_def check_try_def and_then_def
  handleResponse_def safeJson_def headers_def client0_def Let_def check_catch_def enforce_def
  govern_def new_PolicyDeniedError_def throw_new_PolicyDeniedError_def

lemma String_nat_500: "String_nat 500 = ''500''"
  by code_simp


lemma check_mock_fst:
  "fst (check (mockFetch response) c act resource tr) =
     (case check_try c act (Inr response) of Inl err \<Rightarrow> check_catch c act err | Inr d \<Rightarrow> Inr d)"
  using check_mock [of response c act resource tr] by auto

lemma check_rejected_fst:
  "fst (check (mockRejected err) c act resource tr) = check_catch c act err"
  using check_fst_snd [of "mockRejected err" c act resource tr]
  by (auto simp: mockRejected_def check_try_def and_then_def)

lemma get_prop_not_denied: "get_prop v k \<noteq> Inl (PolicyDenied e)"
  by (cases v) (auto split: option.splits)

lemma get_prop_total: "v \<noteq> JNull \<Longrightarrow> v \<noteq> JUndefined \<Longrightarrow> \<exists>x. get_prop v k = Inr x"
  by (cases v) (auto split: option.splits)

lemma handleResponse_not_403:
  "status response \<noteq> 403 \<Longrightarrow> handleResponse response \<noteq> Inl (PolicyDenied e)"
  by (simp add: handleResponse_def)

lemma handleResponse_error_status:
  "handleResponse response = Inr data \<Longrightarrow> status response < 400"
  by (auto simp: handleResponse_def and_then_def Let_def throw_new_PolicyDeniedError_throws
      split: if_splits sum.splits)

lemma handleResponse_ge_400:
  "400 \<le> status response \<Longrightarrow> status response \<noteq> 403 \<Longrightarrow>
     handleResponse response =
       (if status response = 401 then Inl (AuthenticationError ''Invalid or expired token'')
        else if status response = 429 then Inl (RateLimitError ''Rate limit exceeded'')
        else Inl (MeshGuardError
               (''Request failed: '' @ String_nat (status response) @ '' '' @ body_text response)))"
  by (simp add: handleResponse_def)

lemma check_snd: "\<exists>url init. snd (check net c act resource tr) = tr @ [Fetch url init]"
  using check_fst_snd [of net c act resource tr] by auto

lemma check_snd_count: "count_list (snd (check net c act resource tr)) FnCall = count_list tr FnCall"
  using check_snd [of net c act resource tr] by auto

lemma govern_fst:
  "fst (govern net c act fn resource tr) =
     (case fst (enforce net c act resource tr) of Inl err \<Rightarrow> Inl err | Inr d \<Rightarrow> settle fn)"
  by (simp add: govern_def split: prod.splits sum.splits)

lemma govern_snd:
  "snd (govern net c act fn resource tr) =
     (case fst (enforce net c act resource tr) of
        Inl err \<Rightarrow> snd (enforce net c act resource tr)
      | Inr d \<Rightarrow> snd (enforce net c act resource tr) @ [FnCall])"
  by (simp add: govern_def split: prod.splits sum.splits)

lemma check_denied0:
  "fst (check (mockFetch denied0) client0 ''write:secrets'' None []) =
     Inr \<lparr>allowed = False, action = ''write:secrets'', decision = Deny, policy = JStr ''strict'',
          rule = JUndefined, reason = JStr ''Nope'', traceId = ''trace-1''\<rparr>"
  by (simp add: eval_defs denied0_def)

lemma check_allowed0:
  "fst (check (mockFetch allowed0) client0 ''read:contacts'' None []) =
     Inr \<lparr>allowed = True, action = ''read:contacts'', decision = Allow, policy = JStr ''default'',
          rule = JUndefined, reason = JUndefined, traceId = ''trace-1''\<rparr>"
  by (simp add: eval_defs allowed0_def)

lemma check_denied_by_object0:
  "fst (check (mockFetch denied_by_object0) client0 ''write:secrets'' None []) =
     Inr \<lparr>allowed = False, action = ''write:secrets'', decision = Deny,
          policy = JObj [(''toString'', JNum (Number ''1''))],
          rule = JUndefined, reason = JUndefined, traceId = ''trace-1''\<rparr>"
  by (simp add: eval_defs denied_by_object0_def)

lemma enforce_denied0:
  "fst (enforce (mockFetch denied0) client0 ''write:secrets'' None []) =
     Inl (PolicyDenied
       \<lparr>message = ''Action '' @ [CHR 0x27] @ ''write:secrets'' @ [CHR 0x27] @ '' denied by policy ''
                    @ [CHR 0x27] @ ''strict'' @ [CHR 0x27] @ '': Nope'',
        err_action = JStr ''write:secrets'', err_policy = JStr ''strict'', err_rule = JUndefined,
        err_reason = JStr ''Nope''\<rparr>)"
  by (simp add: eval_defs denied0_def)

lemma enforce_401:
  "fst (enforce (mockFetch (response_of 401 [] None)) client0 ''write:secrets'' None []) =
     Inl (AuthenticationError ''Invalid or expired token'')"
  by (simp add: eval_defs)

text \<open>
  The constructor on arguments of the declared types, and on no arguments but the action.
\<close>

lemma new_PolicyDeniedError_typed:
  assumes "string_or_undefined p" "string_or_undefined r" "string_or_undefined m"
  shows "\<exists>e. new_PolicyDeniedError
           \<lparr>opt_action = JStr a, opt_policy = p, opt_rule = r, opt_reason = m\<rparr> = Inr e
         \<and> err_action e = JStr a \<and> err_policy e = p \<and> err_rule e = r
         \<and> err_reason e = (if m = JUndefined then JStr ''Access denied by policy'' else m)"
  using assms
  by (cases p; cases r; cases m) (simp_all add: new_PolicyDeniedError_def and_then_def Let_def)

lemma default_denial:
  "new_PolicyDeniedError
     \<lparr>opt_action = JStr act, opt_policy = JUndefined, opt_rule = JUndefined,
      opt_reason = JUndefined\<rparr> =
   Inr \<lparr>message = ''Action '' @ [CHR 0x27] @ act @ [CHR 0x27]
                   @ '' denied: Access denied by policy'',
        err_action = JStr act, err_policy = JUndefined, err_rule = JUndefined,
        err_reason = JStr ''Access denied by policy''\<rparr>"
  by (simp add: new_PolicyDeniedError_def and_then_def Let_def)

lemma enforce_denies_typed:
  assumes "fst (check net c act resource tr) = Inr d \<and> \<not> allowed d \<and>
    string_or_undefined (policy d) \<and> string_or_undefined (rule d) \<and>
    string_or_undefined (reason d)"
  shows "\<exists>e. new_PolicyDeniedError
              \<lparr>opt_action = JStr (action d), opt_policy = policy d, opt_rule = rule d,
               opt_reason = reason d\<rparr> = Inr e \<and>
           fst (enforce net c act resource tr) = Inl (PolicyDenied e)"
proof -
  from assms have a: "action d = act" using check_decision by blast
  from assms obtain e where
    "new_PolicyDeniedError
       \<lparr>opt_action = JStr (action d), opt_policy = policy d, opt_rule = rule d,
        opt_reason = reason d\<rparr> = Inr e"
    using new_PolicyDeniedError_typed [of "policy d" "rule d" "reason d" "action d"] by blast
  with assms a show ?thesis
    by (simp add: enforce_fst throw_new_PolicyDeniedError_def)
qed

subsection \<open>The decision invariant\<close>

text \<open>
  Claim C9. Every decision that \<^verbatim>\<open>check\<close> returns, and every decision that
  \<^verbatim>\<open>enforce\<close> returns, has \<open>allowed\<close> true exactly when its \<open>decision\<close> is
  \<open>Allow\<close>, carries the action that was checked, and has the client's configured trace
  id as its \<open>traceId\<close>, whatever the transport answered. (\<^verbatim>\<open>govern\<close> hands out no
  decision: it returns the callable's result.)
\<close>

theorem decision_invariant:
  "(fst (check net c act resource tr) = Inr d \<longrightarrow>
      (allowed d \<longleftrightarrow> decision d = Allow) \<and> action d = act \<and> traceId d = client_traceId c) \<and>
   (fst (enforce net c act resource tr) = Inr d \<longrightarrow>
      (allowed d \<longleftrightarrow> decision d = Allow) \<and> action d = act \<and> traceId d = client_traceId c)"
proof (rule conjI; rule impI)
  assume "fst (check net c act resource tr) = Inr d"
  then show "(allowed d \<longleftrightarrow> decision d = Allow) \<and> action d = act \<and> traceId d = client_traceId c"
    by (rule check_decision)
next
  assume "fst (enforce net c act resource tr) = Inr d"
  then have "fst (check net c act resource tr) = Inr d"
    by (simp add: enforce_fst throw_new_PolicyDeniedError_throws split: sum.splits if_splits)
  then show "(allowed d \<longleftrightarrow> decision d = Allow) \<and> action d = act \<and> traceId d = client_traceId c"
    by (rule check_decision)
qed

text \<open>
  At a 200 response whose body carries a trace id of its own, the decision has the
  client's.
\<close>

theorem decision_invariant_witness:
  "fst (check (mockFetch echoed0) client0 ''read:contacts'' None []) =
     Inr \<lparr>allowed = True, action = ''read:contacts'', decision = Allow, policy = JUndefined,
          rule = JUndefined, reason = JUndefined, traceId = ''trace-1''\<rparr> \<and>
   (allowed \<lparr>allowed = True, action = ''read:contacts'', decision = Allow, policy = JUndefined,
          rule = JUndefined, reason = JUndefined, traceId = ''trace-1''\<rparr> \<longleftrightarrow>
    decision \<lparr>allowed = True, action = ''read:contacts'', decision = Allow, policy = JUndefined,
          rule = JUndefined, reason = JUndefined, traceId = ''trace-1''\<rparr> = Allow) \<and>
   traceId \<lparr>allowed = True, action = ''read:contacts'', decision = Allow, policy = JUndefined,
          rule = JUndefined, reason = JUndefined, traceId = ''trace-1''\<rparr> = client_traceId client0"
proof -
  let ?d = "\<lparr>allowed = True, action = ''read:contacts'', decision = Allow, policy = JUndefined,
          rule = JUndefined, reason = JUndefined, traceId = ''trace-1''\<rparr>"
  let ?net = "mockFetch echoed0"
  have h: "fst (check ?net client0 ''read:contacts'' None []) = Inr ?d"
    by (simp add: check_def fetch_def mockFetch_def response_of_def check_try_def and_then_def
        handleResponse_def safeJson_def headers_def client0_def Let_def echoed0_def)
  have "(allowed ?d \<longleftrightarrow> decision ?d = Allow) \<and> action ?d = ''read:contacts'' \<and>
        traceId ?d = client_traceId client0"
    using h by (rule decision_invariant [THEN conjunct1, rule_format])
  with h show ?thesis by blast
qed

subsection \<open>Which statuses let \<^verbatim>\<open>check\<close> return\<close>

text \<open>
  Claim C2, as the code has it. The claim lets \<^verbatim>\<open>check\<close> return only on 200 and 403;
  \<^verbatim>\<open>handleResponse\<close> fails a response only from status 400 on, so every status below
  400 gives an allow decision. What holds: when the service answers with \<open>response\<close> and
  \<^verbatim>\<open>check\<close> returns a decision, the status is 403 and the decision denies, or the status
  is below 400 and the decision allows; on every other status (400 or more, not 403)
  \<^verbatim>\<open>check\<close> throws: \<^verbatim>\<open>AuthenticationError\<close> on 401, \<^verbatim>\<open>RateLimitError\<close> on 429,
  \<^verbatim>\<open>MeshGuardError\<close> with the status and the body text otherwise.
\<close>

theorem check_returns_only_below_400_or_403:
  "(fst (check (mockFetch response) c act resource tr) = Inr d \<longrightarrow>
      (status response = 403 \<and> \<not> allowed d) \<or> (status response < 400 \<and> allowed d)) \<and>
   (400 \<le> status response \<and> status response \<noteq> 403 \<longrightarrow>
      fst (check (mockFetch response) c act resource tr) =
        (if status response = 401 then Inl (AuthenticationError ''Invalid or expired token'')
         else if status response = 429 then Inl (RateLimitError ''Rate limit exceeded'')
         else Inl (MeshGuardError
                (''Request failed: '' @ String_nat (status response) @ '' '' @ body_text response))))"
proof (rule conjI; rule impI)
  assume r: "fst (check (mockFetch response) c act resource tr) = Inr d"
  show "(status response = 403 \<and> \<not> allowed d) \<or> (status response < 400 \<and> allowed d)"
  proof (cases "status response = 403")
    case True
    with r show ?thesis
      by (auto simp: check_mock_fst check_try_def check_catch_def and_then_def Let_def
          get_prop_not_denied split: sum.splits error.splits)
  next
    case False
    with r show ?thesis
      by (auto simp: check_mock_fst check_try_def check_catch_def and_then_def Let_def
          handleResponse_not_403 get_prop_not_denied
          split: sum.splits error.splits dest: handleResponse_error_status)
  qed
next
  assume "400 \<le> status response \<and> status response \<noteq> 403"
  then show "fst (check (mockFetch response) c act resource tr) =
        (if status response = 401 then Inl (AuthenticationError ''Invalid or expired token'')
         else if status response = 429 then Inl (RateLimitError ''Rate limit exceeded'')
         else Inl (MeshGuardError
                (''Request failed: '' @ String_nat (status response) @ '' '' @ body_text response)))"
    by (simp add: check_mock_fst check_try_def and_then_def handleResponse_ge_400 check_catch_def)
qed

text \<open>
  The theorem at the 403 response of the tests and at a 500 response.
\<close>

theorem check_returns_only_below_400_or_403_witness:
  "fst (check (mockFetch denied0) client0 ''write:secrets'' None []) =
     Inr \<lparr>allowed = False, action = ''write:secrets'', decision = Deny, policy = JStr ''strict'',
          rule = JUndefined, reason = JStr ''Nope'', traceId = ''trace-1''\<rparr> \<and>
   status denied0 = 403 \<and>
   (400::nat) \<le> status (response_of 500 ''down'' None) \<and>
   status (response_of 500 ''down'' None) \<noteq> 403 \<and>
   fst (check (mockFetch (response_of 500 ''down'' None)) client0 ''read:data'' None []) =
     Inl (MeshGuardError ''Request failed: 500 down'')"
proof -
  let ?d = "\<lparr>allowed = False, action = ''write:secrets'', decision = Deny, policy = JStr ''strict'',
          rule = JUndefined, reason = JStr ''Nope'', traceId = ''trace-1''\<rparr>"
  let ?s = "response_of 500 ''down'' None"
  have h: "fst (check (mockFetch denied0) client0 ''write:secrets'' None []) = Inr ?d"
    by (rule check_denied0)
  have "(status denied0 = 403 \<and> \<not> allowed ?d) \<or> (status denied0 < 400 \<and> allowed ?d)"
    using h by (rule check_returns_only_below_400_or_403 [THEN conjunct1, rule_format])
  then have a: "status denied0 = 403" by simp
  have g: "400 \<le> status ?s \<and> status ?s \<noteq> 403"
    by (simp add: response_of_def)
  have "fst (check (mockFetch ?s) client0 ''read:data'' None []) =
        (if status ?s = 401 then Inl (AuthenticationError ''Invalid or expired token'')
         else if status ?s = 429 then Inl (RateLimitError ''Rate limit exceeded'')
         else Inl (MeshGuardError
                (''Request failed: '' @ String_nat (status ?s) @ '' '' @ body_text ?s)))"
    using g by (rule check_returns_only_below_400_or_403 [THEN conjunct2, rule_format])
  then have b: "fst (check (mockFetch ?s) client0 ''read:data'' None []) =
     Inl (MeshGuardError ''Request failed: 500 down'')"
    by (simp add: response_of_def String_nat_500)
  from h a g b show ?thesis by blast
qed

text \<open>
  Claim C2 as stated fails at status 204 with an empty body: \<^verbatim>\<open>check\<close> returns an allow
  decision.
\<close>

theorem check_allows_on_204:
  "fst (check (mockFetch (response_of 204 [] None)) client0 ''read:contacts'' None []) =
     Inr \<lparr>allowed = True, action = ''read:contacts'', decision = Allow, policy = JUndefined,
          rule = JUndefined, reason = JUndefined, traceId = ''trace-1''\<rparr>"
  by (simp add: eval_defs)

subsection \<open>Denials that \<^verbatim>\<open>check\<close> does not absorb\<close>

text \<open>
  Claim C3 at a 403 response whose body is the JSON text \<^verbatim>\<open>null\<close>: \<^verbatim>\<open>safeJson\<close>
  returns \<^verbatim>\<open>null\<close>, the read of \<^verbatim>\<open>data.policy\<close> throws a \<^verbatim>\<open>TypeError\<close>, the
  \<^verbatim>\<open>catch\<close> block rethrows it, and \<^verbatim>\<open>check\<close> raises on a denial.
\<close>

theorem check_throws_on_403_null_body:
  "fst (check (mockFetch (response_of 403 ''null'' (Some JNull))) client0 ''read:contacts'' None [])
     = Inl (TypeError ''null.policy'')"
  by (simp add: eval_defs)

text \<open>
  What the documentation of \<^verbatim>\<open>check\<close> promises holds otherwise. On a 403 whose parsed
  body allows a property read (it is not \<^verbatim>\<open>null\<close>), \<^verbatim>\<open>check\<close> returns the deny
  decision with \<^verbatim>\<open>policy\<close>, \<^verbatim>\<open>rule\<close> and \<^verbatim>\<open>message\<close> read off the body; a
  \<^verbatim>\<open>PolicyDeniedError\<close> thrown inside the \<^verbatim>\<open>try\<close> block becomes a deny decision
  with the error's fields; any other error thrown there propagates unchanged.
\<close>

theorem check_absorbs_policy_denials:
  "(status response = 403 \<and> get_prop (safeJson response) ''policy'' = Inr p \<longrightarrow>
      (\<exists>r m. get_prop (safeJson response) ''rule'' = Inr r \<and>
             get_prop (safeJson response) ''message'' = Inr m \<and>
             fst (check (mockFetch response) c act resource tr) =
               Inr \<lparr>allowed = False, action = act, decision = Deny, policy = p, rule = r,
                    reason = m, traceId = client_traceId c\<rparr>)) \<and>
   fst (check (mockRejected (PolicyDenied e)) c act resource tr) =
     Inr \<lparr>allowed = False, action = act, decision = Deny, policy = err_policy e,
          rule = err_rule e, reason = err_reason e, traceId = client_traceId c\<rparr> \<and>
   ((\<forall>e'. err \<noteq> PolicyDenied e') \<longrightarrow>
      fst (check (mockRejected err) c act resource tr) = Inl err)"
proof (intro conjI impI)
  assume h: "status response = 403 \<and> get_prop (safeJson response) ''policy'' = Inr p"
  then have "safeJson response \<noteq> JNull" "safeJson response \<noteq> JUndefined"
    by auto
  then obtain r m where "get_prop (safeJson response) ''rule'' = Inr r"
    "get_prop (safeJson response) ''message'' = Inr m"
    using get_prop_total by blast
  with h show "\<exists>r m. get_prop (safeJson response) ''rule'' = Inr r \<and>
             get_prop (safeJson response) ''message'' = Inr m \<and>
             fst (check (mockFetch response) c act resource tr) =
               Inr \<lparr>allowed = False, action = act, decision = Deny, policy = p, rule = r,
                    reason = m, traceId = client_traceId c\<rparr>"
    by (simp add: check_mock_fst check_try_def and_then_def)
next
  show "fst (check (mockRejected (PolicyDenied e)) c act resource tr) =
     Inr \<lparr>allowed = False, action = act, decision = Deny, policy = err_policy e,
          rule = err_rule e, reason = err_reason e, traceId = client_traceId c\<rparr>"
    by (simp add: check_rejected_fst check_catch_def)
next
  assume "\<forall>e'. err \<noteq> PolicyDenied e'"
  then show "fst (check (mockRejected err) c act resource tr) = Inl err"
    by (cases err) (simp_all add: check_rejected_fst check_catch_def)
qed

theorem check_absorbs_policy_denials_witness:
  "status denied0 = 403 \<and>
   fst (check (mockFetch denied0) client0 ''write:secrets'' None []) =
     Inr \<lparr>allowed = False, action = ''write:secrets'', decision = Deny, policy = JStr ''strict'',
          rule = JUndefined, reason = JStr ''Nope'', traceId = ''trace-1''\<rparr> \<and>
   fst (check (mockRejected (TransportError ''ECONNREFUSED'')) client0 ''write:secrets'' None [])
     = Inl (TransportError ''ECONNREFUSED'')"
proof -
  have h: "status denied0 = 403 \<and> get_prop (safeJson denied0) ''policy'' = Inr (JStr ''strict'')"
    by (simp add: denied0_def response_of_def safeJson_def)
  have n: "\<forall>e'. TransportError ''ECONNREFUSED'' \<noteq> PolicyDenied e'" by simp
  note t = check_absorbs_policy_denials
  from t [THEN conjunct1, rule_format, OF h, of client0 "''write:secrets''" None "[]"]
  have 1: "fst (check (mockFetch denied0) client0 ''write:secrets'' None []) =
     Inr \<lparr>allowed = False, action = ''write:secrets'', decision = Deny, policy = JStr ''strict'',
          rule = JUndefined, reason = JStr ''Nope'', traceId = ''trace-1''\<rparr>"
    by (auto simp: denied0_def response_of_def safeJson_def client0_def)
  from t [THEN conjunct2, THEN conjunct2, THEN mp, OF n, of client0 "''write:secrets''" None "[]"]
  have 2: "fst (check (mockRejected (TransportError ''ECONNREFUSED'')) client0 ''write:secrets''
      None []) = Inl (TransportError ''ECONNREFUSED'')" .
  from h 1 2 show ?thesis by blast
qed

subsection \<open>Bodies that do not parse\<close>

text \<open>
  Claim C10. On a 403 response whose body is empty or is not valid JSON, \<^verbatim>\<open>check\<close>
  returns the deny decision with \<open>policy\<close>, \<open>rule\<close> and \<open>reason\<close> all undefined;
  \<^verbatim>\<open>enforce\<close> and \<^verbatim>\<open>govern\<close> then raise the \<^verbatim>\<open>PolicyDeniedError\<close> built from
  it, with the default reason, and nothing else: no parse error is raised.
\<close>

theorem unparsable_403_body_is_plain_deny:
  assumes "status response = 403"
    and "body_text response = [] \<or> body_json response = None"
  shows "fst (check (mockFetch response) c act resource tr) =
           Inr \<lparr>allowed = False, action = act, decision = Deny, policy = JUndefined,
                rule = JUndefined, reason = JUndefined, traceId = client_traceId c\<rparr> \<and>
         fst (enforce (mockFetch response) c act resource tr) =
           Inl (PolicyDenied
                  \<lparr>message = ''Action '' @ [CHR 0x27] @ act @ [CHR 0x27]
                               @ '' denied: Access denied by policy'',
                   err_action = JStr act, err_policy = JUndefined, err_rule = JUndefined,
                   err_reason = JStr ''Access denied by policy''\<rparr>) \<and>
         fst (govern (mockFetch response) c act fn resource tr) =
           Inl (PolicyDenied
                  \<lparr>message = ''Action '' @ [CHR 0x27] @ act @ [CHR 0x27]
                               @ '' denied: Access denied by policy'',
                   err_action = JStr act, err_policy = JUndefined, err_rule = JUndefined,
                   err_reason = JStr ''Access denied by policy''\<rparr>)"
proof -
  from assms(2) have j: "safeJson response = JObj []"
    by (auto simp: safeJson_def)
  have c: "fst (check (mockFetch response) c act resource tr) =
           Inr \<lparr>allowed = False, action = act, decision = Deny, policy = JUndefined,
                rule = JUndefined, reason = JUndefined, traceId = client_traceId c\<rparr>"
    using assms(1) j by (simp add: check_mock_fst check_try_def and_then_def)
  then show ?thesis
    by (simp add: govern_fst enforce_fst throw_new_PolicyDeniedError_def default_denial)
qed

theorem unparsable_403_body_is_plain_deny_witness:
  "status (response_of 403 ''<html>Forbidden</html>'' None) = 403 \<and>
   body_json (response_of 403 ''<html>Forbidden</html>'' None) = None \<and>
   fst (check (mockFetch (response_of 403 ''<html>Forbidden</html>'' None)) client0
          ''write:secrets'' None []) =
     Inr \<lparr>allowed = False, action = ''write:secrets'', decision = Deny, policy = JUndefined,
          rule = JUndefined, reason = JUndefined, traceId = ''trace-1''\<rparr> \<and>
   fst (enforce (mockFetch (response_of 403 ''<html>Forbidden</html>'' None)) client0
          ''write:secrets'' None []) =
     Inl (PolicyDenied
       \<lparr>message = ''Action '' @ [CHR 0x27] @ ''write:secrets'' @ [CHR 0x27]
                    @ '' denied: Access denied by policy'',
        err_action = JStr ''write:secrets'', err_policy = JUndefined, err_rule = JUndefined,
        err_reason = JStr ''Access denied by policy''\<rparr>)"
proof -
  let ?r = "response_of 403 ''<html>Forbidden</html>'' None"
  have s: "status ?r = 403" by (simp add: response_of_def)
  have b: "body_text ?r = [] \<or> body_json ?r = None" by (simp add: response_of_def)
  note t = unparsable_403_body_is_plain_deny [OF s b, of client0 "''write:secrets''" None "[]"
      "Returns JNull"]
  from t s show ?thesis
    by (simp add: client0_def response_of_def)
qed

subsection \<open>\<^verbatim>\<open>enforce\<close> against \<^verbatim>\<open>check\<close>\<close>

text \<open>
  Claim C4 at a 403 response whose body gives the policy as an object with a property
  named \<^verbatim>\<open>toString\<close>: \<^verbatim>\<open>check\<close> returns the deny decision, carrying that object
  as its policy; \<^verbatim>\<open>enforce\<close> passes it to the constructor of
  \<^verbatim>\<open>PolicyDeniedError\<close>, whose template literal cannot convert it to a string; and
  \<^verbatim>\<open>enforce\<close> rejects with that \<^verbatim>\<open>TypeError\<close>, not with a
  \<^verbatim>\<open>PolicyDeniedError\<close>.
\<close>

theorem enforce_throws_type_error_on_denial:
  "fst (check (mockFetch denied_by_object0) client0 ''write:secrets'' None []) =
     Inr \<lparr>allowed = False, action = ''write:secrets'', decision = Deny,
          policy = JObj [(''toString'', JNum (Number ''1''))],
          rule = JUndefined, reason = JUndefined, traceId = ''trace-1''\<rparr> \<and>
   fst (enforce (mockFetch denied_by_object0) client0 ''write:secrets'' None []) =
     Inl (TypeError ''Cannot convert object to primitive value'')"
  by (simp add: eval_defs denied_by_object0_def)

text \<open>
  What holds of \<^verbatim>\<open>enforce\<close>. It throws a \<^verbatim>\<open>PolicyDeniedError\<close> only when
  \<^verbatim>\<open>check\<close> returned a decision that is not allowed; when that decision's policy,
  rule and reason are strings or undefined, as their types declare, it throws the
  \<^verbatim>\<open>PolicyDeniedError\<close> constructed from the decision's action, policy, rule and
  reason; and when the decision is allowed it returns that decision.
\<close>

theorem enforce_against_check:
  "((\<exists>e. fst (enforce net c act resource tr) = Inl (PolicyDenied e)) \<longrightarrow>
      (\<exists>d'. fst (check net c act resource tr) = Inr d' \<and> \<not> allowed d')) \<and>
   (fst (check net c act resource tr) = Inr d \<and> \<not> allowed d \<and>
    string_or_undefined (policy d) \<and> string_or_undefined (rule d) \<and>
    string_or_undefined (reason d) \<longrightarrow>
      (\<exists>e. new_PolicyDeniedError
              \<lparr>opt_action = JStr (action d), opt_policy = policy d, opt_rule = rule d,
               opt_reason = reason d\<rparr> = Inr e \<and>
           fst (enforce net c act resource tr) = Inl (PolicyDenied e))) \<and>
   (fst (check net c act resource tr) = Inr d \<and> allowed d \<longrightarrow>
      fst (enforce net c act resource tr) = Inr d)"
proof (intro conjI impI)
  assume "\<exists>e. fst (enforce net c act resource tr) = Inl (PolicyDenied e)"
  then show "\<exists>d'. fst (check net c act resource tr) = Inr d' \<and> \<not> allowed d'"
    by (cases "fst (check net c act resource tr)")
       (auto simp: enforce_fst check_never_denied split: if_splits)
next
  assume h: "fst (check net c act resource tr) = Inr d \<and> \<not> allowed d \<and>
    string_or_undefined (policy d) \<and> string_or_undefined (rule d) \<and>
    string_or_undefined (reason d)"
  then show "\<exists>e. new_PolicyDeniedError
              \<lparr>opt_action = JStr (action d), opt_policy = policy d, opt_rule = rule d,
               opt_reason = reason d\<rparr> = Inr e \<and>
           fst (enforce net c act resource tr) = Inl (PolicyDenied e)"
    by (rule enforce_denies_typed)
next
  assume "fst (check net c act resource tr) = Inr d \<and> allowed d"
  then show "fst (enforce net c act resource tr) = Inr d"
    by (simp add: enforce_fst)
qed

theorem enforce_against_check_witness:
  "fst (enforce (mockFetch denied0) client0 ''write:secrets'' None []) =
     Inl (PolicyDenied
       \<lparr>message = ''Action '' @ [CHR 0x27] @ ''write:secrets'' @ [CHR 0x27] @ '' denied by policy ''
                    @ [CHR 0x27] @ ''strict'' @ [CHR 0x27] @ '': Nope'',
        err_action = JStr ''write:secrets'', err_policy = JStr ''strict'', err_rule = JUndefined,
        err_reason = JStr ''Nope''\<rparr>) \<and>
   fst (enforce (mockFetch allowed0) client0 ''read:contacts'' None []) =
     Inr \<lparr>allowed = True, action = ''read:contacts'', decision = Allow, policy = JStr ''default'',
          rule = JUndefined, reason = JUndefined, traceId = ''trace-1''\<rparr>"
proof -
  let ?d = "\<lparr>allowed = False, action = ''write:secrets'', decision = Deny, policy = JStr ''strict'',
          rule = JUndefined, reason = JStr ''Nope'', traceId = ''trace-1''\<rparr>"
  let ?a = "\<lparr>allowed = True, action = ''read:contacts'', decision = Allow, policy = JStr ''default'',
          rule = JUndefined, reason = JUndefined, traceId = ''trace-1''\<rparr>"
  have hd: "fst (check (mockFetch denied0) client0 ''write:secrets'' None []) = Inr ?d \<and>
      \<not> allowed ?d \<and> string_or_undefined (policy ?d) \<and> string_or_undefined (rule ?d) \<and>
      string_or_undefined (reason ?d)"
    by (simp add: check_denied0)
  have ha: "fst (check (mockFetch allowed0) client0 ''read:contacts'' None []) = Inr ?a \<and> allowed ?a"
    by (simp add: check_allowed0)
  have "\<exists>e. new_PolicyDeniedError
              \<lparr>opt_action = JStr (action ?d), opt_policy = policy ?d, opt_rule = rule ?d,
               opt_reason = reason ?d\<rparr> = Inr e \<and>
           fst (enforce (mockFetch denied0) client0 ''write:secrets'' None []) = Inl (PolicyDenied e)"
    using hd by (rule enforce_against_check [THEN conjunct2, THEN conjunct1, rule_format])
  then have 1: "fst (enforce (mockFetch denied0) client0 ''write:secrets'' None []) =
     Inl (PolicyDenied
       \<lparr>message = ''Action '' @ [CHR 0x27] @ ''write:secrets'' @ [CHR 0x27] @ '' denied by policy ''
                    @ [CHR 0x27] @ ''strict'' @ [CHR 0x27] @ '': Nope'',
        err_action = JStr ''write:secrets'', err_policy = JStr ''strict'', err_rule = JUndefined,
        err_reason = JStr ''Nope''\<rparr>)"
    by (auto simp: new_PolicyDeniedError_def and_then_def Let_def)
  have 2: "fst (enforce (mockFetch allowed0) client0 ''read:contacts'' None []) = Inr ?a"
    using ha by (rule enforce_against_check [THEN conjunct2, THEN conjunct2, rule_format])
  from 1 2 show ?thesis by blast
qed

subsection \<open>\<^verbatim>\<open>govern\<close>\<close>

text \<open>
  Claim C5 at the same response: \<^verbatim>\<open>check\<close> denies, the callable is not called, and
  \<^verbatim>\<open>govern\<close> rejects with the \<^verbatim>\<open>TypeError\<close> of the constructor, not with a
  \<^verbatim>\<open>PolicyDeniedError\<close>.
\<close>

theorem govern_throws_type_error_on_denial:
  "fst (check (mockFetch denied_by_object0) client0 ''write:secrets'' None []) =
     Inr \<lparr>allowed = False, action = ''write:secrets'', decision = Deny,
          policy = JObj [(''toString'', JNum (Number ''1''))],
          rule = JUndefined, reason = JUndefined, traceId = ''trace-1''\<rparr> \<and>
   fst (govern (mockFetch denied_by_object0) client0 ''write:secrets''
          (Returns (JStr ''should not run'')) None []) =
     Inl (TypeError ''Cannot convert object to primitive value'') \<and>
   count_list (snd (govern (mockFetch denied_by_object0) client0 ''write:secrets''
          (Returns (JStr ''should not run'')) None [])) FnCall = 0"
  by (simp add: eval_defs denied_by_object0_def)

text \<open>
  What holds of \<^verbatim>\<open>govern\<close>. When \<^verbatim>\<open>check\<close> denies, \<^verbatim>\<open>govern\<close> rejects and the
  log gains no call of the callable; the rejection is a \<^verbatim>\<open>PolicyDeniedError\<close> when the
  decision's policy, rule and reason are strings or undefined. When \<^verbatim>\<open>check\<close> allows,
  the log gains exactly one call and \<^verbatim>\<open>govern\<close> gives what the call gave.
\<close>

theorem govern_calls_fn_only_when_allowed:
  "(fst (check net c act resource tr) = Inr d \<and> \<not> allowed d \<longrightarrow>
      (\<exists>err. fst (govern net c act fn resource tr) = Inl err) \<and>
      count_list (snd (govern net c act fn resource tr)) FnCall = count_list tr FnCall) \<and>
   (fst (check net c act resource tr) = Inr d \<and> \<not> allowed d \<and>
    string_or_undefined (policy d) \<and> string_or_undefined (rule d) \<and>
    string_or_undefined (reason d) \<longrightarrow>
      (\<exists>e. fst (govern net c act fn resource tr) = Inl (PolicyDenied e))) \<and>
   (fst (check net c act resource tr) = Inr d \<and> allowed d \<longrightarrow>
      fst (govern net c act fn resource tr) = settle fn \<and>
      count_list (snd (govern net c act fn resource tr)) FnCall = count_list tr FnCall + 1)"
proof (intro conjI impI)
  assume h: "fst (check net c act resource tr) = Inr d \<and> \<not> allowed d"
  then have "\<exists>err. fst (enforce net c act resource tr) = Inl err"
    by (simp add: enforce_fst throw_new_PolicyDeniedError_def split: sum.splits)
  then obtain err where e: "fst (enforce net c act resource tr) = Inl err" by blast
  then show "\<exists>err. fst (govern net c act fn resource tr) = Inl err"
    by (simp add: govern_fst)
  from e show "count_list (snd (govern net c act fn resource tr)) FnCall = count_list tr FnCall"
    by (simp add: govern_snd enforce_snd check_snd_count)
next
  assume h: "fst (check net c act resource tr) = Inr d \<and> \<not> allowed d \<and>
    string_or_undefined (policy d) \<and> string_or_undefined (rule d) \<and>
    string_or_undefined (reason d)"
  then have "\<exists>e. new_PolicyDeniedError
              \<lparr>opt_action = JStr (action d), opt_policy = policy d, opt_rule = rule d,
               opt_reason = reason d\<rparr> = Inr e \<and>
           fst (enforce net c act resource tr) = Inl (PolicyDenied e)"
    by (rule enforce_denies_typed)
  then show "\<exists>e. fst (govern net c act fn resource tr) = Inl (PolicyDenied e)"
    by (auto simp: govern_fst)
next
  assume h: "fst (check net c act resource tr) = Inr d \<and> allowed d"
  then show "fst (govern net c act fn resource tr) = settle fn"
    by (simp add: govern_fst enforce_fst)
  from h show "count_list (snd (govern net c act fn resource tr)) FnCall = count_list tr FnCall + 1"
    by (simp add: govern_snd enforce_fst enforce_snd check_snd_count)
qed

theorem govern_calls_fn_only_when_allowed_witness:
  "(\<exists>e. fst (govern (mockFetch denied0) client0 ''write:secrets'' (Returns (JStr ''should not run''))
             None []) = Inl (PolicyDenied e)) \<and>
   count_list (snd (govern (mockFetch denied0) client0 ''write:secrets''
             (Returns (JStr ''should not run'')) None [])) FnCall = 0 \<and>
   fst (govern (mockFetch allowed0) client0 ''read:contacts'' (Returns (JNum (Number ''42''))) None [])
     = Inr (JNum (Number ''42'')) \<and>
   count_list (snd (govern (mockFetch allowed0) client0 ''read:contacts''
             (Returns (JNum (Number ''42''))) None [])) FnCall = 1"
proof -
  let ?d = "\<lparr>allowed = False, action = ''write:secrets'', decision = Deny, policy = JStr ''strict'',
          rule = JUndefined, reason = JStr ''Nope'', traceId = ''trace-1''\<rparr>"
  let ?a = "\<lparr>allowed = True, action = ''read:contacts'', decision = Allow, policy = JStr ''default'',
          rule = JUndefined, reason = JUndefined, traceId = ''trace-1''\<rparr>"
  have hd: "fst (check (mockFetch denied0) client0 ''write:secrets'' None []) = Inr ?d \<and>
      \<not> allowed ?d"
    by (simp add: check_denied0)
  have ht: "fst (check (mockFetch denied0) client0 ''write:secrets'' None []) = Inr ?d \<and>
      \<not> allowed ?d \<and> string_or_undefined (policy ?d) \<and> string_or_undefined (rule ?d) \<and>
      string_or_undefined (reason ?d)"
    by (simp add: check_denied0)
  have ha: "fst (check (mockFetch allowed0) client0 ''read:contacts'' None []) = Inr ?a \<and> allowed ?a"
    by (simp add: check_allowed0)
  note t = govern_calls_fn_only_when_allowed
  have 1: "(\<exists>err. fst (govern (mockFetch denied0) client0 ''write:secrets''
                (Returns (JStr ''should not run'')) None []) = Inl err) \<and>
      count_list (snd (govern (mockFetch denied0) client0 ''write:secrets''
                (Returns (JStr ''should not run'')) None [])) FnCall = count_list [] FnCall"
    using hd by (rule t [THEN conjunct1, rule_format])
  have 2: "\<exists>e. fst (govern (mockFetch denied0) client0 ''write:secrets''
                (Returns (JStr ''should not run'')) None []) = Inl (PolicyDenied e)"
    using ht by (rule t [THEN conjunct2, THEN conjunct1, rule_format])
  have 3: "fst (govern (mockFetch allowed0) client0 ''read:contacts''
                (Returns (JNum (Number ''42''))) None [])
        = settle (Returns (JNum (Number ''42''))) \<and>
      count_list (snd (govern (mockFetch allowed0) client0 ''read:contacts''
                (Returns (JNum (Number ''42''))) None [])) FnCall = count_list [] FnCall + 1"
    using ha by (rule t [THEN conjunct2, THEN conjunct2, rule_format])
  from 1 2 3 show ?thesis by simp
qed

subsection \<open>The message of a policy denial\<close>

text \<open>
  Claim C8, as the code has it. Constructed from strings, the error carries its
  arguments and the message \<open>Action '{action}' denied\<close>, then \<open> by policy '{policy}'\<close>
  exactly when a policy is present and not the empty string, then \<open> (rule: {rule})\<close>
  exactly when a rule is present and not the empty string, then \<open>: {reason}\<close>, the reason
  defaulting to \<open>Access denied by policy\<close> when absent.
\<close>

theorem policy_denied_message:
  "new_PolicyDeniedError
      \<lparr>opt_action = JStr act, opt_policy = optional pol, opt_rule = optional rul,
       opt_reason = optional rsn\<rparr> =
   Inr \<lparr>message = composed_message act pol rul rsn, err_action = JStr act,
        err_policy = optional pol, err_rule = optional rul,
        err_reason = JStr (case rsn of None \<Rightarrow> ''Access denied by policy'' | Some r \<Rightarrow> r)\<rparr>"
  by (cases pol; cases rul; cases rsn)
     (simp_all add: new_PolicyDeniedError_def composed_message_def optional_def Let_def
        and_then_def)

text \<open>
  Claim C8 as stated fails for a policy that is present and empty: the documented
  composition has the policy part, the constructor's message has not.
\<close>

theorem policy_denied_message_empty_policy:
  "new_PolicyDeniedError
      \<lparr>opt_action = JStr ''write:email'', opt_policy = optional (Some ''''), opt_rule = optional None,
       opt_reason = optional (Some ''Email sending blocked'')\<rparr> =
   Inr \<lparr>message = ''Action '' @ [CHR 0x27] @ ''write:email'' @ [CHR 0x27]
                   @ '' denied: Email sending blocked'',
        err_action = JStr ''write:email'', err_policy = JStr '''', err_rule = JUndefined,
        err_reason = JStr ''Email sending blocked''\<rparr> \<and>
   ''Action '' @ [CHR 0x27] @ ''write:email'' @ [CHR 0x27] @ '' denied: Email sending blocked''
     \<noteq> spec_message ''write:email'' (Some '''') None (Some ''Email sending blocked'')"
  by (simp add: new_PolicyDeniedError_def spec_message_def optional_def Let_def and_then_def)

subsection \<open>Headers of a proxied request\<close>














subsection \<open>Admin operations without an admin token\<close>

text \<open>
  Claim C7, as the code has it. On a client without admin token (none configured, or the
  empty string), each of \<^verbatim>\<open>listAgents\<close>, \<^verbatim>\<open>createAgent\<close>, \<^verbatim>\<open>revokeAgent\<close>,
  \<^verbatim>\<open>listPolicies\<close> and \<^verbatim>\<open>getAuditLog\<close> returns a promise that rejects with
  \<^verbatim>\<open>AuthenticationError\<close>, and leaves the log as it was: no request is issued. The call
  does not throw: the methods are \<^verbatim>\<open>async\<close>.
\<close>

theorem admin_operations_reject_without_admin_token:
  "adminToken c = None \<or> adminToken c = Some [] \<longrightarrow>
     listAgents net c tr =
       (Rejects (AuthenticationError ''Admin token required for this operation''), tr) \<and>
     createAgent net c options tr =
       (Rejects (AuthenticationError ''Admin token required for this operation''), tr) \<and>
     revokeAgent net c agentId tr =
       (Rejects (AuthenticationError ''Admin token required for this operation''), tr) \<and>
     listPolicies net c tr =
       (Rejects (AuthenticationError ''Admin token required for this operation''), tr) \<and>
     getAuditLog net c audit tr =
       (Rejects (AuthenticationError ''Admin token required for this operation''), tr)"
proof
  assume "adminToken c = None \<or> adminToken c = Some []"
  then have "adminHeaders c = Inl (AuthenticationError ''Admin token required for this operation'')"
    by (auto simp: adminHeaders_def)
  then show "listAgents net c tr =
       (Rejects (AuthenticationError ''Admin token required for this operation''), tr) \<and>
     createAgent net c options tr =
       (Rejects (AuthenticationError ''Admin token required for this operation''), tr) \<and>
     revokeAgent net c agentId tr =
       (Rejects (AuthenticationError ''Admin token required for this operation''), tr) \<and>
     listPolicies net c tr =
       (Rejects (AuthenticationError ''Admin token required for this operation''), tr) \<and>
     getAuditLog net c audit tr =
       (Rejects (AuthenticationError ''Admin token required for this operation''), tr)"
    by (simp add: listAgents_def createAgent_def revokeAgent_def listPolicies_def getAuditLog_def
        async_def Let_def)
qed

text \<open>
  The theorem at a client constructed with no options in an empty environment.
\<close>

theorem admin_operations_reject_without_admin_token_witness:
  "adminToken (new_MeshGuardClient no_env ''uuid-1'' no_options) = None \<and>
   listAgents (mockFetch allowed0) (new_MeshGuardClient no_env ''uuid-1'' no_options) [] =
     (Rejects (AuthenticationError ''Admin token required for this operation''), []) \<and>
   getAuditLog (mockFetch allowed0) (new_MeshGuardClient no_env ''uuid-1'' no_options)
       \<lparr>audit_limit = Some (Number ''10''), audit_decision = Some ''deny''\<rparr> [] =
     (Rejects (AuthenticationError ''Admin token required for this operation''), [])"
proof -
  let ?c = "new_MeshGuardClient no_env ''uuid-1'' no_options"
  have h: "adminToken ?c = None"
    by (simp add: new_MeshGuardClient_def no_env_def no_options_def)
  then have "adminToken ?c = None \<or> adminToken ?c = Some []" by simp
  note t = admin_operations_reject_without_admin_token [rule_format, OF this]
  from h t [of "mockFetch allowed0" "[]"] show ?thesis by blast
qed

text \<open>
  Claim C7 as stated fails in that the error is not raised synchronously: the call of
  \<^verbatim>\<open>listAgents\<close> on such a client returns a rejected promise and does not throw.
\<close>

theorem admin_operation_does_not_throw:
  "fst (listAgents (mockFetch allowed0) (new_MeshGuardClient no_env ''uuid-1'' no_options) []) =
     Rejects (AuthenticationError ''Admin token required for this operation'') \<and>
   fst (listAgents (mockFetch allowed0) (new_MeshGuardClient no_env ''uuid-1'' no_options) []) \<noteq>
     Throws (AuthenticationError ''Admin token required for this operation'')"
  by (simp add: listAgents_def adminHeaders_def async_def new_MeshGuardClient_def no_env_def
      no_options_def)

subsection \<open>The deny handler of a governed tool\<close>

text \<open>
  Claim C6. For the function \<^verbatim>\<open>governedTool\<close> intercepts and for
  \<^verbatim>\<open>GovernedTool.invoke\<close>: when \<^verbatim>\<open>enforce\<close> raises a \<^verbatim>\<open>PolicyDeniedError\<close> and a
  deny handler was supplied, the handler is called with the error and the original
  arguments and the invocation gives what the handler gave; without a handler the
  \<^verbatim>\<open>PolicyDeniedError\<close> propagates; any other error of \<^verbatim>\<open>enforce\<close> propagates,
  handler or not, and the handler is not called.
\<close>

theorem deny_handler_only_for_policy_denials:
  "(fst (enforce net client act None tr) = Inl (PolicyDenied e) \<longrightarrow>
      governedTool net act client tool (Some handler) prop args tr =
        (settle (handler e args), snd (enforce net client act None tr) @ [DenyCall e args]) \<and>
      governedTool net act client tool None prop args tr =
        (Inl (PolicyDenied e), snd (enforce net client act None tr))) \<and>
   (fst (enforce net client act None tr) = Inl err \<and> (\<forall>e'. err \<noteq> PolicyDenied e') \<longrightarrow>
      governedTool net act client tool onDeny prop args tr =
        (Inl err, snd (enforce net client act None tr))) \<and>
   (fst (enforce net (gt_client this) (gt_action this) None tr) = Inl (PolicyDenied e) \<longrightarrow>
      (gt_onDeny this = Some handler \<longrightarrow>
         GovernedTool_invoke net this input config tr =
           (settle (handler e [input, config]),
            snd (enforce net (gt_client this) (gt_action this) None tr)
              @ [DenyCall e [input, config]])) \<and>
      (gt_onDeny this = None \<longrightarrow>
         GovernedTool_invoke net this input config tr =
           (Inl (PolicyDenied e), snd (enforce net (gt_client this) (gt_action this) None tr)))) \<and>
   (fst (enforce net (gt_client this) (gt_action this) None tr) = Inl err
      \<and> (\<forall>e'. err \<noteq> PolicyDenied e') \<longrightarrow>
      GovernedTool_invoke net this input config tr =
        (Inl err, snd (enforce net (gt_client this) (gt_action this) None tr)))"
proof (intro conjI impI)
  assume h: "fst (enforce net client act None tr) = Inl (PolicyDenied e)"
  then show "governedTool net act client tool (Some handler) prop args tr =
        (settle (handler e args), snd (enforce net client act None tr) @ [DenyCall e args])"
    by (cases "enforce net client act None tr") (simp add: governedTool_def)
  from h show "governedTool net act client tool None prop args tr =
        (Inl (PolicyDenied e), snd (enforce net client act None tr))"
    by (cases "enforce net client act None tr") (simp add: governedTool_def)
next
  assume h: "fst (enforce net client act None tr) = Inl err \<and> (\<forall>e'. err \<noteq> PolicyDenied e')"
  then show "governedTool net act client tool onDeny prop args tr =
        (Inl err, snd (enforce net client act None tr))"
    by (cases "enforce net client act None tr"; cases err) (simp_all add: governedTool_def)
next
  assume h: "fst (enforce net (gt_client this) (gt_action this) None tr) = Inl (PolicyDenied e)"
    and o: "gt_onDeny this = Some handler"
  then show "GovernedTool_invoke net this input config tr =
           (settle (handler e [input, config]),
            snd (enforce net (gt_client this) (gt_action this) None tr)
              @ [DenyCall e [input, config]])"
    by (cases "enforce net (gt_client this) (gt_action this) None tr")
       (simp add: GovernedTool_invoke_def)
next
  assume h: "fst (enforce net (gt_client this) (gt_action this) None tr) = Inl (PolicyDenied e)"
    and o: "gt_onDeny this = None"
  then show "GovernedTool_invoke net this input config tr =
           (Inl (PolicyDenied e), snd (enforce net (gt_client this) (gt_action this) None tr))"
    by (cases "enforce net (gt_client this) (gt_action this) None tr")
       (simp add: GovernedTool_invoke_def)
next
  assume h: "fst (enforce net (gt_client this) (gt_action this) None tr) = Inl err
      \<and> (\<forall>e'. err \<noteq> PolicyDenied e')"
  then show "GovernedTool_invoke net this input config tr =
        (Inl err, snd (enforce net (gt_client this) (gt_action this) None tr))"
    by (cases "enforce net (gt_client this) (gt_action this) None tr"; cases err)
       (simp_all add: GovernedTool_invoke_def)
qed

theorem deny_handler_only_for_policy_denials_witness:
  "fst (governedTool (mockFetch denied0) ''write:secrets'' client0 search_tool (Some report_denial)
          Invoke [JStr ''query''] []) =
     Inr (JArr [JStr (''Action '' @ [CHR 0x27] @ ''write:secrets'' @ [CHR 0x27]
                       @ '' denied by policy '' @ [CHR 0x27] @ ''strict'' @ [CHR 0x27] @ '': Nope''),
                JStr ''query'']) \<and>
   fst (governedTool (mockFetch denied0) ''write:secrets'' client0 search_tool None
          Invoke [JStr ''query''] []) =
     Inl (PolicyDenied
       \<lparr>message = ''Action '' @ [CHR 0x27] @ ''write:secrets'' @ [CHR 0x27] @ '' denied by policy ''
                    @ [CHR 0x27] @ ''strict'' @ [CHR 0x27] @ '': Nope'',
        err_action = JStr ''write:secrets'', err_policy = JStr ''strict'', err_rule = JUndefined,
        err_reason = JStr ''Nope''\<rparr>) \<and>
   fst (governedTool (mockFetch (response_of 401 [] None)) ''write:secrets'' client0 search_tool
          (Some report_denial) Invoke [JStr ''query''] []) =
     Inl (AuthenticationError ''Invalid or expired token'') \<and>
   fst (GovernedTool_invoke (mockFetch denied0)
          (new_GovernedTool \<lparr>o_tool = search_tool, o_action = ''write:secrets'', o_client = client0,
             o_onDeny = Some report_denial\<rparr>) (JStr ''query'') JUndefined []) =
     Inr (JArr [JStr (''Action '' @ [CHR 0x27] @ ''write:secrets'' @ [CHR 0x27]
                       @ '' denied by policy '' @ [CHR 0x27] @ ''strict'' @ [CHR 0x27] @ '': Nope''),
                JStr ''query'', JUndefined]) \<and>
   fst (GovernedTool_invoke (mockFetch (response_of 401 [] None))
          (new_GovernedTool \<lparr>o_tool = search_tool, o_action = ''write:secrets'', o_client = client0,
             o_onDeny = Some report_denial\<rparr>) (JStr ''query'') JUndefined []) =
     Inl (AuthenticationError ''Invalid or expired token'')"
proof -
  let ?gt = "new_GovernedTool \<lparr>o_tool = search_tool, o_action = ''write:secrets'',
     o_client = client0, o_onDeny = Some report_denial\<rparr>"
  have g: "gt_client ?gt = client0" "gt_action ?gt = ''write:secrets''"
    "gt_onDeny ?gt = Some report_denial"
    by (simp_all add: new_GovernedTool_def)
  have a: "fst (enforce (mockFetch (response_of 401 [] None)) client0 ''write:secrets'' None []) =
      Inl (AuthenticationError ''Invalid or expired token'')
      \<and> (\<forall>e'. AuthenticationError ''Invalid or expired token'' \<noteq> PolicyDenied e')"
    by (simp add: enforce_401)
  note t = deny_handler_only_for_policy_denials
  from t [THEN conjunct1, rule_format, OF enforce_denied0,
      of search_tool report_denial Invoke "[JStr ''query'']"]
  have 1: "fst (governedTool (mockFetch denied0) ''write:secrets'' client0 search_tool
          (Some report_denial) Invoke [JStr ''query''] []) =
     Inr (JArr [JStr (''Action '' @ [CHR 0x27] @ ''write:secrets'' @ [CHR 0x27]
                       @ '' denied by policy '' @ [CHR 0x27] @ ''strict'' @ [CHR 0x27] @ '': Nope''),
                JStr ''query''])"
    and 2: "fst (governedTool (mockFetch denied0) ''write:secrets'' client0 search_tool None
          Invoke [JStr ''query''] []) =
     Inl (PolicyDenied
       \<lparr>message = ''Action '' @ [CHR 0x27] @ ''write:secrets'' @ [CHR 0x27] @ '' denied by policy ''
                    @ [CHR 0x27] @ ''strict'' @ [CHR 0x27] @ '': Nope'',
        err_action = JStr ''write:secrets'', err_policy = JStr ''strict'', err_rule = JUndefined,
        err_reason = JStr ''Nope''\<rparr>)"
    by (simp_all add: report_denial_def)
  from t [THEN conjunct2, THEN conjunct1, rule_format, OF a,
      of search_tool "Some report_denial" Invoke "[JStr ''query'']"]
  have 3: "fst (governedTool (mockFetch (response_of 401 [] None)) ''write:secrets'' client0
          search_tool (Some report_denial) Invoke [JStr ''query''] []) =
     Inl (AuthenticationError ''Invalid or expired token'')"
    by simp
  from t [THEN conjunct2, THEN conjunct2, THEN conjunct1, rule_format,
      of "mockFetch denied0" ?gt "[]" _ report_denial "JStr ''query''" JUndefined]
    enforce_denied0
  have 4: "fst (GovernedTool_invoke (mockFetch denied0) ?gt (JStr ''query'') JUndefined []) =
     Inr (JArr [JStr (''Action '' @ [CHR 0x27] @ ''write:secrets'' @ [CHR 0x27]
                       @ '' denied by policy '' @ [CHR 0x27] @ ''strict'' @ [CHR 0x27] @ '': Nope''),
                JStr ''query'', JUndefined])"
    by (simp add: g report_denial_def)
  from t [THEN conjunct2, THEN conjunct2, THEN conjunct2, rule_format,
      of "mockFetch (response_of 401 [] None)" ?gt "[]"
         "AuthenticationError ''Invalid or expired token''" "JStr ''query''" JUndefined]
    a
  have 5: "fst (GovernedTool_invoke (mockFetch (response_of 401 [] None)) ?gt (JStr ''query'')
          JUndefined []) = Inl (AuthenticationError ''Invalid or expired token'')"
    by (simp add: g)
  from 1 2 3 4 5 show ?thesis by blast
qed

end
